theory Spec2Isabelle
  imports Complex_Main "HOL-Library.AList"
begin

section \<open>Machine integers\<close>

text \<open>
  \<^verbatim>\<open>int\<close> is 32 bits wide and \<^verbatim>\<open>size_t\<close> 64 bits. A \<^verbatim>\<open>size_t\<close> assigned to an
  \<^verbatim>\<open>int\<close> keeps its low 32 bits, read as a signed number; \<^verbatim>\<open>size_t\<close> arithmetic wraps
  at \<open>2\<^sup>6\<^sup>4\<close>, so that \<^verbatim>\<open>length() - 1\<close> of an empty string is \<open>2\<^sup>6\<^sup>4 - 1\<close>.
\<close>

definition INT_MAX :: int where
  "INT_MAX = 2147483647"

definition INT_MIN :: int where
  "INT_MIN = - 2147483648"

definition sizeToInt :: "nat \<Rightarrow> int" where
  "sizeToInt n =
     (let low = int n mod 4294967296 in if low > INT_MAX then low - 4294967296 else low)"

definition sizeMinusOne :: "nat \<Rightarrow> nat" where
  "sizeMinusOne n = (n + 18446744073709551615) mod 18446744073709551616"


section \<open>Doubles\<close>

text \<open>
  A \<^verbatim>\<open>double\<close> is a number, an infinity or a NaN. The file only copies and compares
  the scores it is given, so the model needs the values and the comparison \<^verbatim>\<open><=\<close>,
  which is false whenever an operand is a NaN. \<open>double_max\<close> is the larger of two values
  in the sense of that comparison.
\<close>

datatype double = NaN | NegInfinity | Finite real | PosInfinity

fun double_le :: "double \<Rightarrow> double \<Rightarrow> bool" where
  "double_le NaN y = False"
| "double_le x NaN = False"
| "double_le NegInfinity y = True"
| "double_le x PosInfinity = True"
| "double_le (Finite a) (Finite b) = (a \<le> b)"
| "double_le x y = False"

definition double_less :: "double \<Rightarrow> double \<Rightarrow> bool" where
  "double_less x y = (double_le x y \<and> \<not> double_le y x)"

definition double_max :: "double \<Rightarrow> double \<Rightarrow> double" where
  "double_max x y = (if double_le x y then y else x)"


section \<open>Reverse complement (seqan\_align.cpp, getReverseComplement)\<close>

text \<open>
  The body of the \<^verbatim>\<open>switch (letter)\<close> statement: nineteen \<^verbatim>\<open>case\<close> labels, each
  pushing one character onto \<^verbatim>\<open>reverseComplement\<close>. The statement has no
  \<^verbatim>\<open>default\<close> label, so for any other letter control leaves the switch with the
  output string as it was.
\<close>

definition switchLetter :: "char \<Rightarrow> string \<Rightarrow> string" where
  "switchLetter letter reverseComplement =
     (if letter = CHR ''A'' then reverseComplement @ [CHR ''T'']
      else if letter = CHR ''T'' then reverseComplement @ [CHR ''A'']
      else if letter = CHR ''G'' then reverseComplement @ [CHR ''C'']
      else if letter = CHR ''C'' then reverseComplement @ [CHR ''G'']
      else if letter = CHR ''R'' then reverseComplement @ [CHR ''Y'']
      else if letter = CHR ''Y'' then reverseComplement @ [CHR ''R'']
      else if letter = CHR ''S'' then reverseComplement @ [CHR ''S'']
      else if letter = CHR ''W'' then reverseComplement @ [CHR ''W'']
      else if letter = CHR ''K'' then reverseComplement @ [CHR ''M'']
      else if letter = CHR ''M'' then reverseComplement @ [CHR ''K'']
      else if letter = CHR ''B'' then reverseComplement @ [CHR ''V'']
      else if letter = CHR ''D'' then reverseComplement @ [CHR ''H'']
      else if letter = CHR ''H'' then reverseComplement @ [CHR ''D'']
      else if letter = CHR ''V'' then reverseComplement @ [CHR ''B'']
      else if letter = CHR ''N'' then reverseComplement @ [CHR ''N'']
      else if letter = CHR ''.'' then reverseComplement @ [CHR ''.'']
      else if letter = CHR ''-'' then reverseComplement @ [CHR ''-'']
      else if letter = CHR ''?'' then reverseComplement @ [CHR ''?'']
      else if letter = CHR ''*'' then reverseComplement @ [CHR ''*'']
      else reverseComplement)"

text \<open>
  The loop \<^verbatim>\<open>for (int i = sequence.length() - 1; i >= 0; --i)\<close>. The nat argument
  counts the iterations that remain: with \<open>Suc i\<close> remaining, the loop variable is \<open>i\<close>.
  The loop variable is an \<^verbatim>\<open>int\<close> that starts at the converted value of
  \<^verbatim>\<open>sequence.length() - 1\<close>: the body runs for \<open>i, i - 1, \<dots>, 0\<close>, that is \<open>i + 1\<close>
  times, and not at all when the start value is negative.
\<close>

fun reverseComplementLoop :: "string \<Rightarrow> nat \<Rightarrow> string \<Rightarrow> string" where
  "reverseComplementLoop sequence 0 reverseComplement = reverseComplement"
| "reverseComplementLoop sequence (Suc i) reverseComplement =
     reverseComplementLoop sequence i (switchLetter (sequence ! i) reverseComplement)"

definition getReverseComplement :: "string \<Rightarrow> string" where
  "getReverseComplement sequence =
     (let i = sizeToInt (sizeMinusOne (length sequence))
      in reverseComplementLoop sequence (nat (i + 1)) [])"

text \<open>The nineteen symbols that have a \<^verbatim>\<open>case\<close> label, and the table the labels implement.\<close>

definition switchSymbols :: "char list" where
  "switchSymbols = ''ATGCRYSWKMBDHVN.-?*''"

definition complementOf :: "char \<Rightarrow> char" where
  "complementOf letter = hd (switchLetter letter [])"


section \<open>Constants of settings.h\<close>

text \<open>
  The constants come from \<^verbatim>\<open>settings.h\<close>, which is not among the sources. They are
  parameters of the model: every function that reads one takes the record below. The
  score thresholds, the merge distance and the minimum alignment length are assigned to
  \<^verbatim>\<open>double\<close> variables and are reals here; the point count and the band sizes are
  assigned to \<^verbatim>\<open>int\<close> variables.
\<close>

record settings =
  COMMON_KMER_BAND_SIZE :: int
  MINIMUM_MAX_SCORE :: real
  LOW_SCORE_THRESHOLD_LEVEL_1 :: real
  HIGH_SCORE_THRESHOLD_LEVEL_1 :: real
  MERGE_DISTANCE_LEVEL_1 :: real
  MIN_ALIGNMENT_LENGTH_LEVEL_1 :: real
  MIN_POINT_COUNT_LEVEL_1 :: int
  LOW_SCORE_THRESHOLD_LEVEL_2 :: real
  HIGH_SCORE_THRESHOLD_LEVEL_2 :: real
  MERGE_DISTANCE_LEVEL_2 :: real
  MIN_ALIGNMENT_LENGTH_LEVEL_2 :: real
  MIN_POINT_COUNT_LEVEL_2 :: int
  LOW_SCORE_THRESHOLD_LEVEL_3 :: real
  HIGH_SCORE_THRESHOLD_LEVEL_3 :: real
  MERGE_DISTANCE_LEVEL_3 :: real
  MIN_ALIGNMENT_LENGTH_LEVEL_3 :: real
  MIN_POINT_COUNT_LEVEL_3 :: int
  STARTING_BAND_SIZE :: int
  MAX_BAND_SIZE :: int


section \<open>Data\<close>

text \<open>\<^verbatim>\<open>Score<int, Simple>\<close>, built as (match, mismatch, gap extension, gap open).\<close>

record Score =
  scoreMatch :: int
  scoreMismatch :: int
  scoreGapExtend :: int
  scoreGapOpen :: int

text \<open>
  The classes \<^verbatim>\<open>SemiGlobalAlignment\<close>, \<^verbatim>\<open>AlignmentLine\<close> and \<^verbatim>\<open>CommonKmerSet\<close> are
  declared outside the sources; the records hold the members this file reads or writes,
  and one more field for whatever else an object carries.
\<close>

record SemiGlobalAlignment =
  m_scaledScore :: double
  m_milliseconds :: int
  m_cigar :: string

record AlignmentLine =
  m_trimmedRefStart :: int
  m_trimmedRefEnd :: int
  m_bridgedSeedChain :: "(int \<times> int \<times> int \<times> int) list"
  m_linePoints :: "(int \<times> int) list"

record CommonKmerSet =
  m_readName :: string
  m_refName :: string
  m_maxScore :: real

text \<open>
  What a call can do other than return: read a vector out of range, use the null pointer
  that a failed lookup gives, take a substring that starts outside the string (which
  throws \<^verbatim>\<open>std::out_of_range\<close>, caught nowhere), or overflow a signed \<^verbatim>\<open>int\<close>.
  A call that never returns is the value \<open>None\<close> of the option type around the outcome.
\<close>

datatype fault = IndexOutOfRange | NullSequence | SubstrOutOfRange | SignedOverflow

datatype 'a outcome = Returns 'a | Fault fault

definition bindOutcome ::
  "'a outcome option \<Rightarrow> ('a \<Rightarrow> 'b outcome option) \<Rightarrow> 'b outcome option" where
  "bindOutcome m f =
     (case m of None \<Rightarrow> None | Some (Fault e) \<Rightarrow> Some (Fault e) | Some (Returns x) \<Rightarrow> f x)"


section \<open>The shared index\<close>

text \<open>
  Modelled from the spec: the class \<^verbatim>\<open>KmerPositions\<close> is not among the sources. The spec
  describes it as a mapping from sequence name to sequence (and k-mer table) with the
  operations \<open>namesOfAllEntries\<close> (an ordered sequence of names), \<open>lengthOf\<close>,
  \<open>sequenceOf\<close>, \<open>insert(name, sequence)\<close> and \<open>remove(name)\<close>, insertion and removal
  being by name. The model is an association list in insertion order; the k-mer tables
  are left out. \<open>getSequence\<close> returns a pointer in the code: \<open>None\<close> is the null pointer.
\<close>

type_synonym KmerPositions = "(string \<times> string) list"

definition getAllNames :: "KmerPositions \<Rightarrow> string list" where
  "getAllNames kmerPositions = map fst kmerPositions"

definition addPositions :: "string \<Rightarrow> string \<Rightarrow> KmerPositions \<Rightarrow> KmerPositions" where
  "addPositions name sequence kmerPositions = AList.update name sequence kmerPositions"

definition deletePositions :: "string \<Rightarrow> KmerPositions \<Rightarrow> KmerPositions" where
  "deletePositions name kmerPositions = AList.delete name kmerPositions"

definition getSequence :: "KmerPositions \<Rightarrow> string \<Rightarrow> string option" where
  "getSequence kmerPositions name = map_of kmerPositions name"

definition getLength :: "KmerPositions \<Rightarrow> string \<Rightarrow> int" where
  "getLength kmerPositions name =
     (case map_of kmerPositions name of Some sequence \<Rightarrow> int (length sequence) | None \<Rightarrow> 0)"


section \<open>External collaborators\<close>

text \<open>
  The functions this file calls and does not define are parameters, gathered in a record:
  \<^item> \<open>commonKmerSetMaxScore\<close>: the \<^verbatim>\<open>m_maxScore\<close> that the \<^verbatim>\<open>CommonKmerSet\<close>
    constructor computes from its arguments;
  \<^item> \<open>findAlignmentLines\<close>: the lines found, and the text it appends to \<^verbatim>\<open>output\<close>;
  \<^item> \<open>buildSeedChain\<close>: the success flag, and the line as the call leaves it;
  \<^item> \<open>bandedChainAlignment\<close>: the body of the \<^verbatim>\<open>try\<close> block, that is SeqAn's
    \<^verbatim>\<open>bandedChainAlignment\<close> followed by the \<^verbatim>\<open>SemiGlobalAlignment\<close> constructor, from
    the read, the trimmed reference, the line, the scoring scheme and the band size;
    \<open>None\<close> when either throws;
  \<^item> \<open>needsMoreSensitiveAlignment\<close>, \<open>readHasUnalignedParts\<close>: the two coverage tests;
  \<^item> \<open>getFullString\<close>, \<open>getShortDisplayString\<close>: the serialisations of an alignment;
  \<^item> \<open>to_string\<close>: \<^verbatim>\<open>std::to_string\<close> on \<^verbatim>\<open>int\<close>;
  \<^item> \<open>elapsedTime\<close>: the value of \<^verbatim>\<open>getTime() - startTime\<close> when a refinement ends.
\<close>

record collaborators =
  commonKmerSetMaxScore :: "string \<Rightarrow> string \<Rightarrow> int \<Rightarrow> int \<Rightarrow> int \<Rightarrow> real \<Rightarrow> KmerPositions \<Rightarrow> real"
  findAlignmentLines ::
    "CommonKmerSet \<Rightarrow> int \<Rightarrow> int \<Rightarrow> int \<Rightarrow> real \<Rightarrow> real \<Rightarrow> real \<Rightarrow> AlignmentLine list \<times> string"
  buildSeedChain :: "AlignmentLine \<Rightarrow> int \<Rightarrow> real \<Rightarrow> bool \<times> AlignmentLine"
  bandedChainAlignment ::
    "string \<Rightarrow> string \<Rightarrow> AlignmentLine \<Rightarrow> Score \<Rightarrow> int \<Rightarrow> SemiGlobalAlignment option"
  needsMoreSensitiveAlignment :: "SemiGlobalAlignment list \<Rightarrow> real \<Rightarrow> bool"
  readHasUnalignedParts :: "SemiGlobalAlignment list \<Rightarrow> bool"
  getFullString :: "SemiGlobalAlignment \<Rightarrow> string"
  getShortDisplayString :: "SemiGlobalAlignment \<Rightarrow> string"
  to_string :: "int \<Rightarrow> string"
  elapsedTime :: int


section \<open>One band (semiGlobalAlignmentOneLineOneBand)\<close>

text \<open>
  The band size is first cut down to the shorter of the two lengths. The \<^verbatim>\<open>try\<close> block
  either yields an alignment or, on any exception (\<^verbatim>\<open>catch (...)\<close>), the null pointer.
  The result is the pointer and the new \<^verbatim>\<open>output\<close>; the third component is not in the
  code: it records the band size that was handed to \<^verbatim>\<open>bandedChainAlignment\<close>.
\<close>

definition semiGlobalAlignmentOneLineOneBand ::
  "collaborators \<Rightarrow> string \<Rightarrow> int \<Rightarrow> string \<Rightarrow> int \<Rightarrow> AlignmentLine \<Rightarrow> int \<Rightarrow> int \<Rightarrow> string \<Rightarrow> Score
     \<Rightarrow> SemiGlobalAlignment option \<times> string \<times> int" where
  "semiGlobalAlignmentOneLineOneBand env readSeq readLen refSeq refLen line bandSize verbosity output
       scoringScheme =
     (let shortestSeqLen = min readLen refLen;
          bandSize = (if bandSize > shortestSeqLen then shortestSeqLen else bandSize)
      in case bandedChainAlignment env readSeq refSeq line scoringScheme bandSize of
           Some sgAlignment \<Rightarrow>
             (Some sgAlignment,
              output
                @ (if verbosity > 2
                   then ''  '' @ getShortDisplayString env sgAlignment @ '', band size = ''
                          @ to_string env bandSize @ [CHR 0x0A]
                   else [])
                @ (if verbosity > 3 then ''    '' @ m_cigar sgAlignment @ [CHR 0x0A] else []),
              bandSize)
         | None \<Rightarrow>
             (None,
              output
                @ (if verbosity > 2
                   then ''  Alignment failed, bandwidth = '' @ to_string env bandSize @ [CHR 0x0A]
                   else []),
              bandSize))"


section \<open>Refinement over band sizes (semiGlobalAlignmentOneLine)\<close>

text \<open>
  \<^verbatim>\<open>std::numeric_limits<double>::min()\<close> is the smallest positive normalised double,
  \<open>2\<^sup>-\<^sup>1\<^sup>0\<^sup>2\<^sup>2\<close>; as a \<^verbatim>\<open>double\<close> it is \<open>Finite DBL_MIN\<close>.
\<close>

definition DBL_MIN :: real where
  "DBL_MIN = 1 / 2 ^ 1022"

text \<open>
  One entry per iteration of the \<^verbatim>\<open>while (true)\<close> loop, kept beside the state so that
  the band sizes the loop goes through can be stated: the value of \<^verbatim>\<open>bandSize\<close> in
  that iteration, the band size handed to the primitive, what the one-band call
  returned, and the value of \<^verbatim>\<open>bestAlignmentScore\<close> when it returned.
\<close>

record attempt =
  requestedBand :: int
  passedBand :: int
  bandResult :: "SemiGlobalAlignment option"
  bestBefore :: double

text \<open>
  The statement \<^verbatim>\<open>if (alignment != 0) { ... }\<close> of the loop body. \<open>None\<close> is the
  \<^verbatim>\<open>break\<close> (the new alignment is deleted); otherwise the new values of
  \<^verbatim>\<open>bestAlignment\<close> and \<^verbatim>\<open>bestAlignmentScore\<close>.
\<close>

definition keepBest ::
  "SemiGlobalAlignment option \<Rightarrow> SemiGlobalAlignment option \<Rightarrow> double
     \<Rightarrow> (SemiGlobalAlignment option \<times> double) option" where
  "keepBest alignment bestAlignment bestAlignmentScore =
     (case alignment of
        Some a \<Rightarrow>
          (let alignmentScore = m_scaledScore a
           in if double_le alignmentScore bestAlignmentScore then None
              else Some (Some a, alignmentScore))
      | None \<Rightarrow> Some (bestAlignment, bestAlignmentScore))"

text \<open>
  The loop. \<open>oneBand\<close> is the call of semiGlobalAlignmentOneLineOneBand with everything
  but the band size and the output fixed. \<^verbatim>\<open>bandSize *= 2\<close> is on a signed \<^verbatim>\<open>int\<close>:
  leaving its range is undefined behaviour, a fault here. The loop need not end (a
  starting band size of zero whose band always fails), hence the option type.
\<close>

partial_function (option) bandSizeLoop ::
  "int \<Rightarrow> (int \<Rightarrow> string \<Rightarrow> SemiGlobalAlignment option \<times> string \<times> int) \<Rightarrow> int
     \<Rightarrow> SemiGlobalAlignment option \<Rightarrow> double \<Rightarrow> string \<Rightarrow> attempt list
     \<Rightarrow> (SemiGlobalAlignment option \<times> string \<times> attempt list) outcome option" where
  "bandSizeLoop maxBandSize oneBand bandSize bestAlignment bestAlignmentScore output attempts =
     (case oneBand bandSize output of
        (alignment, output', passed) \<Rightarrow>
          (let attempts' = attempts @ [\<lparr>requestedBand = bandSize, passedBand = passed,
                                         bandResult = alignment, bestBefore = bestAlignmentScore\<rparr>]
           in case keepBest alignment bestAlignment bestAlignmentScore of
                None \<Rightarrow> Some (Returns (bestAlignment, output', attempts'))
              | Some (bestAlignment', bestAlignmentScore') \<Rightarrow>
                  if bandSize * 2 > INT_MAX \<or> bandSize * 2 < INT_MIN then Some (Fault SignedOverflow)
                  else if bandSize * 2 > maxBandSize
                  then Some (Returns (bestAlignment', output', attempts'))
                  else bandSizeLoop maxBandSize oneBand (bandSize * 2) bestAlignment'
                         bestAlignmentScore' output' attempts'))"

declare bandSizeLoop.simps [code]

text \<open>
  \<^verbatim>\<open>std::string::substr(pos, len)\<close> with \<^verbatim>\<open>int\<close> arguments converted to \<^verbatim>\<open>size_t\<close>:
  it throws when \<open>pos\<close> is beyond the end (a negative \<open>pos\<close> converts to a huge one), and
  a negative \<open>len\<close> converts to a huge one, which takes the rest of the string. In
  semiGlobalAlignmentOneLine the subtraction that gives \<^verbatim>\<open>trimmedRefLength\<close> is on
  \<^verbatim>\<open>int\<close>: leaving the range is a fault. \<^verbatim>\<open>readLength\<close> is the converted
  \<^verbatim>\<open>readSeq->length()\<close>.
\<close>

definition substr :: "string \<Rightarrow> int \<Rightarrow> int \<Rightarrow> string outcome" where
  "substr s pos len =
     (if pos < 0 \<or> pos > int (length s) then Fault SubstrOutOfRange
      else Returns (if len < 0 then drop (nat pos) s else take (nat len) (drop (nat pos) s)))"

definition semiGlobalAlignmentOneLine ::
  "settings \<Rightarrow> collaborators \<Rightarrow> string \<Rightarrow> string \<Rightarrow> AlignmentLine \<Rightarrow> int \<Rightarrow> string \<Rightarrow> Score
     \<Rightarrow> (SemiGlobalAlignment option \<times> string \<times> attempt list) outcome option" where
  "semiGlobalAlignmentOneLine st env readSeq refSeq line verbosity output scoringScheme =
     (let trimmedRefLength = m_trimmedRefEnd line - m_trimmedRefStart line
      in if trimmedRefLength > INT_MAX \<or> trimmedRefLength < INT_MIN then Some (Fault SignedOverflow)
         else
           case substr refSeq (m_trimmedRefStart line) trimmedRefLength of
             Fault e \<Rightarrow> Some (Fault e)
           | Returns trimmedRefSeq \<Rightarrow>
               (let readLength = sizeToInt (length readSeq);
                    bandSize = STARTING_BAND_SIZE st;
                    bestAlignment = None;
                    bestAlignmentScore = Finite DBL_MIN
                in bindOutcome
                     (bandSizeLoop (MAX_BAND_SIZE st)
                        (\<lambda>bandSize output.
                           semiGlobalAlignmentOneLineOneBand env readSeq readLength trimmedRefSeq
                             trimmedRefLength line bandSize verbosity output scoringScheme)
                        bandSize bestAlignment bestAlignmentScore output [])
                     (\<lambda>(bestAlignment, output, attempts).
                        Some (Returns
                          (map_option (\<lambda>a. a\<lparr>m_milliseconds := elapsedTime env\<rparr>) bestAlignment,
                           output, attempts)))))"


section \<open>One sensitivity level (semiGlobalAlignmentAllRefsOneLevel)\<close>

text \<open>
  The \<^verbatim>\<open>if\<close> chain on \<^verbatim>\<open>sensitivityLevel\<close>: the five values it assigns, as
  (lowScoreThreshold, highScoreThreshold, mergeDistance, minAlignmentLength, minPointCount).
\<close>

type_synonym levelValues = "real \<times> real \<times> real \<times> real \<times> int"

definition levelSettings :: "settings \<Rightarrow> int \<Rightarrow> levelValues" where
  "levelSettings st sensitivityLevel =
     (if sensitivityLevel = 1
      then (LOW_SCORE_THRESHOLD_LEVEL_1 st, HIGH_SCORE_THRESHOLD_LEVEL_1 st, MERGE_DISTANCE_LEVEL_1 st,
            MIN_ALIGNMENT_LENGTH_LEVEL_1 st, MIN_POINT_COUNT_LEVEL_1 st)
      else if sensitivityLevel = 2
      then (LOW_SCORE_THRESHOLD_LEVEL_2 st, HIGH_SCORE_THRESHOLD_LEVEL_2 st, MERGE_DISTANCE_LEVEL_2 st,
            MIN_ALIGNMENT_LENGTH_LEVEL_2 st, MIN_POINT_COUNT_LEVEL_2 st)
      else (LOW_SCORE_THRESHOLD_LEVEL_3 st, HIGH_SCORE_THRESHOLD_LEVEL_3 st, MERGE_DISTANCE_LEVEL_3 st,
            MIN_ALIGNMENT_LENGTH_LEVEL_3 st, MIN_POINT_COUNT_LEVEL_3 st))"

text \<open>
  The loop \<^verbatim>\<open>for (size_t j = 0; j < alignmentLines.size(); ++j)\<close> inside the iteration
  \<open>i\<close> of the outer loop. The nat argument counts the iterations that remain. The body
  reads \<^verbatim>\<open>alignmentLines[i]\<close>, with the outer index: out of range it is a fault.
  \<open>build\<close> is \<^verbatim>\<open>buildSeedChain(minPointCount, minAlignmentLength)\<close>, which may change the
  line it is called on, and \<open>oneLine\<close> is the call of semiGlobalAlignmentOneLine with
  everything but the line and the output fixed. The list \<open>used\<close> is not in the code: it
  records, iteration by iteration, the index that was read.
\<close>

fun alignmentLinesLoop ::
  "(AlignmentLine \<Rightarrow> bool \<times> AlignmentLine)
     \<Rightarrow> (AlignmentLine \<Rightarrow> string \<Rightarrow> (SemiGlobalAlignment option \<times> string \<times> attempt list) outcome option)
     \<Rightarrow> nat \<Rightarrow> nat \<Rightarrow> AlignmentLine list \<Rightarrow> SemiGlobalAlignment list \<Rightarrow> string \<Rightarrow> nat list
     \<Rightarrow> (AlignmentLine list \<times> SemiGlobalAlignment list \<times> string \<times> nat list) outcome option" where
  "alignmentLinesLoop build oneLine i 0 alignmentLines alignments output used =
     Some (Returns (alignmentLines, alignments, output, used))"
| "alignmentLinesLoop build oneLine i (Suc n) alignmentLines alignments output used =
     (if i \<ge> length alignmentLines then Some (Fault IndexOutOfRange)
      else case build (alignmentLines ! i) of
        (seedChainSuccess, line) \<Rightarrow>
          if seedChainSuccess
          then bindOutcome (oneLine line output)
                 (\<lambda>(alignment, output, attempts).
                    alignmentLinesLoop build oneLine i n (alignmentLines[i := line])
                      (case alignment of Some a \<Rightarrow> alignments @ [a] | None \<Rightarrow> alignments)
                      output (used @ [i]))
          else alignmentLinesLoop build oneLine i n (alignmentLines[i := line]) alignments output
                 (used @ [i]))"

text \<open>
  The loop \<^verbatim>\<open>for (size_t i = 0; i < commonKmerSets.size(); ++i)\<close>: the list argument is
  \<^verbatim>\<open>commonKmerSets\<close> from index \<open>i\<close> on. Both sequences are looked up before either
  pointer is used. The list \<open>visits\<close> is not in the code: for each candidate that
  reached the inner loop it records \<open>i\<close> and the indices the inner loop read.
\<close>

fun commonKmerSetsLoop ::
  "settings \<Rightarrow> collaborators \<Rightarrow> KmerPositions \<Rightarrow> int \<Rightarrow> Score \<Rightarrow> levelValues \<Rightarrow> nat
     \<Rightarrow> CommonKmerSet list \<Rightarrow> SemiGlobalAlignment list \<Rightarrow> string \<Rightarrow> (nat \<times> nat list) list
     \<Rightarrow> (SemiGlobalAlignment list \<times> string \<times> (nat \<times> nat list) list) outcome option" where
  "commonKmerSetsLoop st env kmerPositions verbosity scoringScheme thresholds i [] alignments output
       visits =
     Some (Returns (alignments, output, visits))"
| "commonKmerSetsLoop st env kmerPositions verbosity scoringScheme thresholds i
       (commonKmerSet # rest) alignments output visits =
     (case thresholds of
        (lowScoreThreshold, highScoreThreshold, mergeDistance, minAlignmentLength, minPointCount) \<Rightarrow>
          if m_maxScore commonKmerSet < highScoreThreshold
          then commonKmerSetsLoop st env kmerPositions verbosity scoringScheme thresholds (Suc i) rest
                 alignments output visits
          else
            case getSequence kmerPositions (m_readName commonKmerSet) of
              None \<Rightarrow> Some (Fault NullSequence)
            | Some readSeq \<Rightarrow>
               (case getSequence kmerPositions (m_refName commonKmerSet) of
                  None \<Rightarrow> Some (Fault NullSequence)
                | Some refSeq \<Rightarrow>
                   (let readLength = sizeToInt (length readSeq);
                        refLength = sizeToInt (length refSeq)
                    in case findAlignmentLines env commonKmerSet readLength refLength verbosity
                              lowScoreThreshold highScoreThreshold mergeDistance of
                         (alignmentLines, text) \<Rightarrow>
                           if length alignmentLines = 0
                           then commonKmerSetsLoop st env kmerPositions verbosity scoringScheme
                                  thresholds (Suc i) rest alignments (output @ text) visits
                           else bindOutcome
                                  (alignmentLinesLoop
                                     (\<lambda>line. buildSeedChain env line minPointCount minAlignmentLength)
                                     (\<lambda>line output.
                                        semiGlobalAlignmentOneLine st env readSeq refSeq line verbosity
                                          output scoringScheme)
                                     i (length alignmentLines) alignmentLines alignments
                                     (output @ text) [])
                                  (\<lambda>(alignmentLines, alignments, output, used).
                                     commonKmerSetsLoop st env kmerPositions verbosity scoringScheme
                                       thresholds (Suc i) rest alignments output
                                       (visits @ [(i, used)])))))"

text \<open>
  The function returns the alignments and the new \<^verbatim>\<open>output\<close>. Two more components are
  not in the code: the record of the index reads, and the five values the function
  worked with (the thresholds after they were multiplied by \<^verbatim>\<open>maxScoreAllSets\<close>).
\<close>

definition semiGlobalAlignmentAllRefsOneLevel ::
  "settings \<Rightarrow> collaborators \<Rightarrow> CommonKmerSet list \<Rightarrow> KmerPositions \<Rightarrow> int \<Rightarrow> string
     \<Rightarrow> int \<Rightarrow> int \<Rightarrow> int \<Rightarrow> int \<Rightarrow> int \<Rightarrow> real
     \<Rightarrow> (SemiGlobalAlignment list \<times> string \<times> (nat \<times> nat list) list \<times> levelValues) outcome option" where
  "semiGlobalAlignmentAllRefsOneLevel st env commonKmerSets kmerPositions verbosity output
       matchScore mismatchScore gapOpenScore gapExtensionScore sensitivityLevel maxScoreAllSets =
     (case levelSettings st sensitivityLevel of
        (lowScoreThreshold, highScoreThreshold, mergeDistance, minAlignmentLength, minPointCount) \<Rightarrow>
          (let lowScoreThreshold = lowScoreThreshold * maxScoreAllSets;
               highScoreThreshold = highScoreThreshold * maxScoreAllSets;
               scoringScheme = \<lparr>scoreMatch = matchScore, scoreMismatch = mismatchScore,
                                scoreGapExtend = gapExtensionScore, scoreGapOpen = gapOpenScore\<rparr>;
               thresholds = (lowScoreThreshold, highScoreThreshold, mergeDistance,
                             minAlignmentLength, minPointCount)
           in bindOutcome
                (commonKmerSetsLoop st env kmerPositions verbosity scoringScheme thresholds 0
                   commonKmerSets [] output [])
                (\<lambda>(alignments, output, visits).
                   Some (Returns (alignments, output, visits, thresholds)))))"


section \<open>All references (semiGlobalAlignmentAllRefs)\<close>

text \<open>
  Modelled from the spec: the constructor of \<^verbatim>\<open>CommonKmerSet\<close> is not among the sources.
  The spec describes a candidate as the tuple of queryName, referenceName, queryLength,
  referenceLength and maxScore, built from the names, the lengths, the band size constant,
  the expected slope and the index; the object keeps the two names it was given, and its
  score is the collaborator's.
\<close>

definition newCommonKmerSet ::
  "collaborators \<Rightarrow> string \<Rightarrow> string \<Rightarrow> int \<Rightarrow> int \<Rightarrow> int \<Rightarrow> real \<Rightarrow> KmerPositions \<Rightarrow> CommonKmerSet" where
  "newCommonKmerSet env readName refName readLength refLength bandSize expectedSlope kmerPositions =
     \<lparr>m_readName = readName, m_refName = refName,
      m_maxScore = commonKmerSetMaxScore env readName refName readLength refLength bandSize
                     expectedSlope kmerPositions\<rparr>"

text \<open>One candidate: deleted when its score is below the floor, else kept and counted in the maximum.\<close>

definition keepCommonKmerSet ::
  "settings \<Rightarrow> CommonKmerSet \<Rightarrow> CommonKmerSet list \<times> real \<Rightarrow> CommonKmerSet list \<times> real" where
  "keepCommonKmerSet st commonKmerSet acc =
     (case acc of
        (commonKmerSets, maxScoreAllSets) \<Rightarrow>
          if m_maxScore commonKmerSet < MINIMUM_MAX_SCORE st then (commonKmerSets, maxScoreAllSets)
          else (commonKmerSets @ [commonKmerSet], max maxScoreAllSets (m_maxScore commonKmerSet)))"

text \<open>The loop over \<^verbatim>\<open>referenceNames\<close>: forward strand first, then reverse strand.\<close>

fun referencesLoop ::
  "settings \<Rightarrow> collaborators \<Rightarrow> string \<Rightarrow> string \<Rightarrow> int \<Rightarrow> real \<Rightarrow> KmerPositions \<Rightarrow> string list
     \<Rightarrow> CommonKmerSet list \<times> real \<Rightarrow> CommonKmerSet list \<times> real" where
  "referencesLoop st env posReadName negReadName readLength expectedSlope kmerPositions [] acc = acc"
| "referencesLoop st env posReadName negReadName readLength expectedSlope kmerPositions
       (refName # names) acc =
     (let refLength = getLength kmerPositions refName;
          acc = keepCommonKmerSet st
                  (newCommonKmerSet env posReadName refName readLength refLength
                     (COMMON_KMER_BAND_SIZE st) expectedSlope kmerPositions) acc;
          acc = keepCommonKmerSet st
                  (newCommonKmerSet env negReadName refName readLength refLength
                     (COMMON_KMER_BAND_SIZE st) expectedSlope kmerPositions) acc
      in referencesLoop st env posReadName negReadName readLength expectedSlope kmerPositions
           names acc)"

text \<open>
  \<^verbatim>\<open>cppStringToCString\<close> copies the characters and adds a terminating zero; read back as
  a C string, the buffer ends at its first zero character.
\<close>

definition cppStringToCString :: "string \<Rightarrow> string" where
  "cppStringToCString cpp_string = takeWhile (\<lambda>c. c \<noteq> CHR 0x00) cpp_string"

text \<open>
  The end of the function, from the comment \<^verbatim>\<open>Clean up.\<close> on: the call
  \<^verbatim>\<open>kmerPositions->deletePositions(readName)\<close> and the construction of the returned
  string. The result is the buffer and the index as the call leaves it.
\<close>

definition cleanUpAndReturn ::
  "collaborators \<Rightarrow> string \<Rightarrow> KmerPositions \<Rightarrow> SemiGlobalAlignment list \<Rightarrow> string
     \<Rightarrow> string \<times> KmerPositions" where
  "cleanUpAndReturn env readName kmerPositions alignments output =
     (let kmerPositions = deletePositions readName kmerPositions;
          returnString = concat (map (\<lambda>a. getFullString env a @ '';'') alignments) @ output
      in (cppStringToCString returnString, kmerPositions))"

text \<open>
  The entry point. \<^verbatim>\<open>std::sort\<close> with the comparison \<^verbatim>\<open>a->m_maxScore > b->m_maxScore\<close>
  is a sort by descending score (the model keeps candidates of equal score in their
  order; the code leaves that order open). The result is the buffer and the index after
  the call; the third component is not in the code: for each call of
  semiGlobalAlignmentAllRefsOneLevel, in order, the five values that call worked with.
\<close>

definition semiGlobalAlignmentAllRefs ::
  "settings \<Rightarrow> collaborators \<Rightarrow> string \<Rightarrow> string \<Rightarrow> int \<Rightarrow> real \<Rightarrow> KmerPositions
     \<Rightarrow> int \<Rightarrow> int \<Rightarrow> int \<Rightarrow> int \<Rightarrow> real
     \<Rightarrow> (string \<times> KmerPositions \<times> levelValues list) outcome option" where
  "semiGlobalAlignmentAllRefs st env readName readSeq verbosity expectedSlope kmerPositions
       matchScore mismatchScore gapOpenScore gapExtensionScore lowScoreThreshold =
     (let output = [];
          posReadName = readName @ ''+'';
          negReadName = readName @ ''-'';
          posReadSeq = readSeq;
          negReadSeq = getReverseComplement posReadSeq;
          readLength = sizeToInt (length posReadSeq);
          referenceNames = getAllNames kmerPositions;
          kmerPositions = addPositions posReadName posReadSeq kmerPositions;
          kmerPositions = addPositions negReadName negReadSeq kmerPositions
      in case referencesLoop st env posReadName negReadName readLength expectedSlope kmerPositions
                referenceNames ([], 0) of
           (commonKmerSets, maxScoreAllSets) \<Rightarrow>
             (let commonKmerSets = sort_key (\<lambda>a. - m_maxScore a) commonKmerSets
              in bindOutcome
                   (semiGlobalAlignmentAllRefsOneLevel st env commonKmerSets kmerPositions verbosity
                      output matchScore mismatchScore gapOpenScore gapExtensionScore 1 maxScoreAllSets)
                   (\<lambda>(alignments, output, visits, values1).
                      if needsMoreSensitiveAlignment env alignments lowScoreThreshold
                      then bindOutcome
                             (semiGlobalAlignmentAllRefsOneLevel st env commonKmerSets kmerPositions
                                verbosity output matchScore mismatchScore gapOpenScore
                                gapExtensionScore 1 maxScoreAllSets)
                             (\<lambda>(l2Alignments, output, visits, values2).
                                (let alignments = alignments @ l2Alignments
                                 in if readHasUnalignedParts env alignments
                                    then bindOutcome
                                           (semiGlobalAlignmentAllRefsOneLevel st env commonKmerSets
                                              kmerPositions verbosity output matchScore mismatchScore
                                              gapOpenScore gapExtensionScore 1 maxScoreAllSets)
                                           (\<lambda>(l3Alignments, output, visits, values3).
                                              (let alignments = alignments @ l3Alignments
                                               in case cleanUpAndReturn env readName kmerPositions
                                                         alignments output of
                                                    (buffer, kmerPositions) \<Rightarrow>
                                                      Some (Returns (buffer, kmerPositions,
                                                                     [values1, values2, values3]))))
                                    else case cleanUpAndReturn env readName kmerPositions alignments
                                                output of
                                           (buffer, kmerPositions) \<Rightarrow>
                                             Some (Returns (buffer, kmerPositions, [values1, values2]))))
                      else case cleanUpAndReturn env readName kmerPositions alignments output of
                             (buffer, kmerPositions) \<Rightarrow>
                               Some (Returns (buffer, kmerPositions, [values1])))))"



section \<open>Describing a refinement\<close>

text \<open>
  The words used to state what the band size loop does. An attempt is non-improving
  when its band gave an alignment whose scaled score compares \<^verbatim>\<open><=\<close> to the value of
  \<^verbatim>\<open>bestAlignmentScore\<close> at that moment. The latest score, after some attempts, is the
  scaled score of the last alignment those attempts gave, or the starting value when
  they gave none; the best score so far is the largest of the starting value and the
  scaled scores of the alignments those attempts gave. Scores are numeric when none of
  them is a NaN.
\<close>

definition nonImproving :: "attempt \<Rightarrow> bool" where
  "nonImproving a =
     (case bandResult a of
        Some x \<Rightarrow> double_le (m_scaledScore x) (bestBefore a)
      | None \<Rightarrow> False)"

definition successfulScores :: "attempt list \<Rightarrow> double list" where
  "successfulScores as =
     concat (map (\<lambda>a. case bandResult a of Some x \<Rightarrow> [m_scaledScore x] | None \<Rightarrow> []) as)"

definition latestScore :: "double \<Rightarrow> attempt list \<Rightarrow> double" where
  "latestScore start as = foldl (\<lambda>s x. x) start (successfulScores as)"

definition bestScoreSoFar :: "double \<Rightarrow> attempt list \<Rightarrow> double" where
  "bestScoreSoFar start as = foldl double_max start (successfulScores as)"

definition numericScores :: "attempt list \<Rightarrow> bool" where
  "numericScores as = list_all (\<lambda>x. x \<noteq> NaN) (successfulScores as)"

text \<open>
  What holds of the attempts \<open>new\<close> of a loop that is entered with band size \<open>b\<close>, best
  alignment \<open>best0\<close> and best score \<open>s0\<close>, under the ceiling \<open>M\<close>, and ends with the
  best alignment \<open>best\<close>; \<open>prim\<close> is the primitive as a function of the band size it is
  given and \<open>clamp\<close> the cut to the shorter length.
\<close>

definition refinementTrace ::
  "(int \<Rightarrow> SemiGlobalAlignment option) \<Rightarrow> (int \<Rightarrow> int) \<Rightarrow> int \<Rightarrow> int \<Rightarrow> SemiGlobalAlignment option
     \<Rightarrow> double \<Rightarrow> SemiGlobalAlignment option \<Rightarrow> attempt list \<Rightarrow> bool" where
  "refinementTrace prim clamp M b best0 s0 best new =
     (new \<noteq> [] \<and>
      map requestedBand new = map (\<lambda>k. b * 2 ^ k) [0..<length new] \<and>
      list_all (\<lambda>a. requestedBand a \<le> M) new \<and>
      map passedBand new = map (\<lambda>a. clamp (requestedBand a)) new \<and>
      map bandResult new = map (\<lambda>a. prim (passedBand a)) new \<and>
      map bestBefore new = map (\<lambda>k. latestScore s0 (take k new)) [0..<length new] \<and>
      (s0 \<noteq> NaN \<and> numericScores new \<longrightarrow>
         map bestBefore new = map (\<lambda>k. bestScoreSoFar s0 (take k new)) [0..<length new]) \<and>
      list_all (\<lambda>a. \<not> nonImproving a \<and> 2 * requestedBand a \<le> M) (butlast new) \<and>
      (nonImproving (last new) \<or> M < 2 * requestedBand (last new)) \<and>
      (best = best0 \<or>
       list_ex (\<lambda>a. bandResult a = best \<and> best \<noteq> None \<and> \<not> nonImproving a) new \<and>
       list_ex (\<lambda>a. case bandResult a of
                      Some x \<Rightarrow> \<not> double_le (m_scaledScore x) s0
                    | None \<Rightarrow> False) new) \<and>
      (s0 \<noteq> NaN \<and> numericScores new \<longrightarrow>
         best = best0 \<or>
         (case best of Some x \<Rightarrow> double_less s0 (m_scaledScore x) | None \<Rightarrow> False)) \<and>
      (best0 \<noteq> None \<or> list_ex (\<lambda>a. bandResult a \<noteq> None \<and> \<not> nonImproving a) new \<longrightarrow> best \<noteq> None))"


section \<open>Example inputs\<close>

text \<open>
  Concrete constants, collaborators and sequences, used to run the functions. The
  example candidate score is 10 for a forward strand and 5 for a reverse strand; the
  line finder returns the given lines for every candidate; both coverage tests ask for
  the next level.
\<close>

definition exampleSettings :: settings where
  "exampleSettings =
     \<lparr>COMMON_KMER_BAND_SIZE = 100, MINIMUM_MAX_SCORE = 1,
      LOW_SCORE_THRESHOLD_LEVEL_1 = 1 / 4, HIGH_SCORE_THRESHOLD_LEVEL_1 = 1 / 2,
      MERGE_DISTANCE_LEVEL_1 = 100, MIN_ALIGNMENT_LENGTH_LEVEL_1 = 20, MIN_POINT_COUNT_LEVEL_1 = 4,
      LOW_SCORE_THRESHOLD_LEVEL_2 = 1 / 8, HIGH_SCORE_THRESHOLD_LEVEL_2 = 1 / 4,
      MERGE_DISTANCE_LEVEL_2 = 200, MIN_ALIGNMENT_LENGTH_LEVEL_2 = 10, MIN_POINT_COUNT_LEVEL_2 = 3,
      LOW_SCORE_THRESHOLD_LEVEL_3 = 1 / 16, HIGH_SCORE_THRESHOLD_LEVEL_3 = 1 / 8,
      MERGE_DISTANCE_LEVEL_3 = 400, MIN_ALIGNMENT_LENGTH_LEVEL_3 = 5, MIN_POINT_COUNT_LEVEL_3 = 2,
      STARTING_BAND_SIZE = 10, MAX_BAND_SIZE = 160\<rparr>"

definition exampleLine :: "int \<Rightarrow> int \<Rightarrow> AlignmentLine" where
  "exampleLine start end =
     \<lparr>m_trimmedRefStart = start, m_trimmedRefEnd = end, m_bridgedSeedChain = [], m_linePoints = []\<rparr>"

definition exampleAlignment :: "real \<Rightarrow> string \<Rightarrow> SemiGlobalAlignment" where
  "exampleAlignment score cigar =
     \<lparr>m_scaledScore = Finite score, m_milliseconds = 0, m_cigar = cigar\<rparr>"

definition nanAlignment :: "string \<Rightarrow> SemiGlobalAlignment" where
  "nanAlignment cigar = \<lparr>m_scaledScore = NaN, m_milliseconds = 0, m_cigar = cigar\<rparr>"

definition exampleCollaborators ::
  "AlignmentLine list \<Rightarrow> bool \<Rightarrow> (AlignmentLine \<Rightarrow> int \<Rightarrow> SemiGlobalAlignment option) \<Rightarrow> collaborators" where
  "exampleCollaborators lines chain primitive =
     \<lparr>commonKmerSetMaxScore = (\<lambda>readName refName readLength refLength bandSize slope kmerPositions.
                                   if last readName = CHR ''+'' then 10 else 5),
      findAlignmentLines = (\<lambda>commonKmerSet readLength refLength verbosity low high merge. (lines, [])),
      buildSeedChain = (\<lambda>line minPointCount minAlignmentLength. (chain, line)),
      bandedChainAlignment = (\<lambda>readSeq refSeq line scoringScheme bandSize. primitive line bandSize),
      needsMoreSensitiveAlignment = (\<lambda>alignments lowScoreThreshold. True),
      readHasUnalignedParts = (\<lambda>alignments. True),
      getFullString = m_cigar,
      getShortDisplayString = m_cigar,
      to_string = (\<lambda>n. []),
      elapsedTime = 7\<rparr>"

definition exampleScoring :: Score where
  "exampleScoring = \<lparr>scoreMatch = 3, scoreMismatch = - 6, scoreGapExtend = - 2, scoreGapOpen = - 5\<rparr>"

definition exampleRead :: string where
  "exampleRead = ''ACGTACGTACGTACGTACGTACGTA''"

definition exampleRef :: string where
  "exampleRef = ''TTTACGTACGTACGTACGTACGTACGTATTTTTTT''"

text \<open>Fails below band size 20, scores 50 below band size 25 and 60 from there on.\<close>

definition examplePrimitive :: "AlignmentLine \<Rightarrow> int \<Rightarrow> SemiGlobalAlignment option" where
  "examplePrimitive line bandSize =
     (if bandSize < 20 then None
      else Some (exampleAlignment (if bandSize < 25 then 50 else 60) ''25M''))"

text \<open>Fails below band size 20 and gives a negative score from there on.\<close>

definition negativePrimitive :: "AlignmentLine \<Rightarrow> int \<Rightarrow> SemiGlobalAlignment option" where
  "negativePrimitive line bandSize =
     (if bandSize < 20 then None else Some (exampleAlignment (- 5) ''25M''))"

text \<open>Scores 60 below band size 20, NaN below band size 25 and 50 from there on.\<close>

definition nanPrimitive :: "AlignmentLine \<Rightarrow> int \<Rightarrow> SemiGlobalAlignment option" where
  "nanPrimitive line bandSize =
     (if bandSize < 20 then Some (exampleAlignment 60 ''25M'')
      else if bandSize < 25 then Some (nanAlignment ''25M'')
      else Some (exampleAlignment 50 ''25M''))"

text \<open>Scores NaN below band size 20 and gives a negative score from there on.\<close>

definition nanNegativePrimitive :: "AlignmentLine \<Rightarrow> int \<Rightarrow> SemiGlobalAlignment option" where
  "nanNegativePrimitive line bandSize =
     (if bandSize < 20 then Some (nanAlignment ''25M'')
      else Some (exampleAlignment (- 5) ''25M''))"

text \<open>Fails at every band size.\<close>

definition failingPrimitive :: "AlignmentLine \<Rightarrow> int \<Rightarrow> SemiGlobalAlignment option" where
  "failingPrimitive line bandSize = None"

text \<open>Succeeds at every band size; the alignment's text tells which line it was given.\<close>

definition linePrimitive :: "AlignmentLine \<Rightarrow> int \<Rightarrow> SemiGlobalAlignment option" where
  "linePrimitive line bandSize =
     Some (exampleAlignment 90 (if m_trimmedRefStart line = 0 then ''first'' else ''second''))"

definition exampleIndex :: KmerPositions where
  "exampleIndex = [(''ref1'', ''TTACGTTT'')]"

definition exampleIndexWithRead :: KmerPositions where
  "exampleIndexWithRead = [(''ref1'', ''TTACGTTT''), (''read7+'', ''AACG''), (''read7-'', ''CGTT'')]"

definition exampleForward :: CommonKmerSet where
  "exampleForward = \<lparr>m_readName = ''read7+'', m_refName = ''ref1'', m_maxScore = 10\<rparr>"

definition exampleReverse :: CommonKmerSet where
  "exampleReverse = \<lparr>m_readName = ''read7-'', m_refName = ''ref1'', m_maxScore = 5\<rparr>"


section \<open>Properties of the integer conversions\<close>

lemma sizeMinusOne_Suc: "sizeMinusOne (Suc m) = m mod 18446744073709551616"
proof -
  have "Suc m + 18446744073709551615 = m + 18446744073709551616" by simp
  then have "sizeMinusOne (Suc m) = (m + 18446744073709551616) mod 18446744073709551616"
    unfolding sizeMinusOne_def by (rule arg_cong)
  then show ?thesis by simp
qed

lemma sizeMinusOne_pos: "0 < n \<Longrightarrow> n \<le> 18446744073709551616 \<Longrightarrow> sizeMinusOne n = n - 1"
  by (cases n) (simp_all add: sizeMinusOne_Suc)

lemma sizeMinusOne_le: "0 < n \<Longrightarrow> sizeMinusOne n \<le> n - 1"
  by (cases n) (simp_all add: sizeMinusOne_Suc)

lemma sizeToInt_le: "sizeToInt n \<le> int n"
proof -
  have "int n mod 4294967296 \<le> int n"
    by (rule zmod_le_nonneg_dividend) simp
  then show ?thesis by (auto simp: sizeToInt_def Let_def)
qed

lemma sizeToInt_small: "int n \<le> INT_MAX \<Longrightarrow> sizeToInt n = int n"
  by (simp add: sizeToInt_def INT_MAX_def Let_def)

lemma loopCount_le: "nat (sizeToInt (sizeMinusOne n) + 1) \<le> n"
proof (cases "n = 0")
  case True
  then show ?thesis by (simp add: sizeMinusOne_def sizeToInt_def INT_MAX_def)
next
  case False
  then have "sizeMinusOne n \<le> n - 1" by (intro sizeMinusOne_le) simp
  with sizeToInt_le [of "sizeMinusOne n"] False show ?thesis by linarith
qed

lemma loopCount_small:
  assumes "n \<le> 2 ^ 31"
  shows "nat (sizeToInt (sizeMinusOne n) + 1) = n"
proof (cases "n = 0")
  case True
  then show ?thesis by (simp add: sizeMinusOne_def sizeToInt_def INT_MAX_def)
next
  case False
  with assms have "sizeMinusOne n = n - 1" by (intro sizeMinusOne_pos) simp_all
  moreover have "int (n - 1) \<le> INT_MAX" using assms False by (simp add: INT_MAX_def)
  ultimately show ?thesis using False by (simp add: sizeToInt_small)
qed


section \<open>Properties of getReverseComplement\<close>

lemma switchLetter_append:
  "switchLetter c acc = acc @ switchLetter c []"
  by (simp add: switchLetter_def)

lemma switchLetter_known:
  "c \<in> set switchSymbols \<Longrightarrow> switchLetter c [] = [complementOf c]"
  by (auto simp: switchSymbols_def complementOf_def switchLetter_def)

lemma switchLetter_unknown:
  "c \<notin> set switchSymbols \<Longrightarrow> switchLetter c [] = []"
  by (simp add: switchSymbols_def switchLetter_def)

lemma switchLetter_length: "length (switchLetter c []) \<le> 1"
  by (simp add: switchLetter_def)

lemma reverseComplementLoop_take:
  "n \<le> length s \<Longrightarrow>
   reverseComplementLoop s n acc = acc @ concat (map (\<lambda>c. switchLetter c []) (rev (take n s)))"
proof (induction n arbitrary: acc)
  case 0
  then show ?case by simp
next
  case (Suc n)
  then have n: "n < length s" by simp
  have "reverseComplementLoop s (Suc n) acc = reverseComplementLoop s n (switchLetter (s ! n) acc)"
    by simp
  also have "\<dots> = switchLetter (s ! n) acc @ concat (map (\<lambda>c. switchLetter c []) (rev (take n s)))"
    using Suc.IH [of "switchLetter (s ! n) acc"] n by simp
  also have "\<dots> = acc @ concat (map (\<lambda>c. switchLetter c []) (rev (take (Suc n) s)))"
    using n switchLetter_append [of "s ! n" acc] by (simp add: take_Suc_conv_app_nth)
  finally show ?case .
qed

text \<open>For any input, the output is made from the first \<open>i + 1\<close> characters only.\<close>

lemma getReverseComplement_take:
  "getReverseComplement s =
     concat (map (\<lambda>c. switchLetter c [])
       (rev (take (nat (sizeToInt (sizeMinusOne (length s)) + 1)) s)))"
  using loopCount_le [of "length s"]
  by (simp add: getReverseComplement_def Let_def reverseComplementLoop_take)

lemma getReverseComplement_concat:
  "length s \<le> 2 ^ 31 \<Longrightarrow> getReverseComplement s = concat (map (\<lambda>c. switchLetter c []) (rev s))"
  by (simp add: getReverseComplement_take loopCount_small)

lemma length_concat_switchLetter:
  "length (concat (map (\<lambda>c. switchLetter c []) xs)) \<le> length xs"
proof (induction xs)
  case Nil
  then show ?case by simp
next
  case (Cons x xs)
  with switchLetter_length [of x] show ?case by simp
qed

lemma getReverseComplement_length_le:
  "length (getReverseComplement s) \<le> length s"
proof -
  have "length (getReverseComplement s) \<le>
          length (rev (take (nat (sizeToInt (sizeMinusOne (length s)) + 1)) s))"
    unfolding getReverseComplement_take by (rule length_concat_switchLetter)
  then show ?thesis by simp
qed

lemma concat_switchLetter_filter:
  "concat (map (\<lambda>c. switchLetter c []) xs) =
     map complementOf (filter (\<lambda>c. c \<in> set switchSymbols) xs)"
proof (induction xs)
  case Nil
  then show ?case by simp
next
  case (Cons c xs)
  then show ?case
    by (cases "c \<in> set switchSymbols") (simp_all add: switchLetter_known switchLetter_unknown)
qed

lemma getReverseComplement_filter:
  "length s \<le> 2 ^ 31 \<Longrightarrow>
   getReverseComplement s = map complementOf (rev (filter (\<lambda>c. c \<in> set switchSymbols) s))"
  by (simp add: getReverseComplement_concat concat_switchLetter_filter rev_filter)

lemma complementOf_table:
  "map complementOf switchSymbols = ''TACGYRSWMKVHDBN.-?*''"
  by (simp add: switchSymbols_def complementOf_def switchLetter_def)

lemma complementOf_closed:
  "c \<in> set switchSymbols \<Longrightarrow> complementOf c \<in> set switchSymbols"
  by (auto simp: switchSymbols_def complementOf_def switchLetter_def)

lemma complementOf_involution:
  "c \<in> set switchSymbols \<Longrightarrow> complementOf (complementOf c) = c"
  by (auto simp: switchSymbols_def complementOf_def switchLetter_def)

lemma length_filter_eq_iff:
  "(length (filter P xs) = length xs) = (set xs \<subseteq> {x. P x})"
proof -
  have "length (filter P xs) + length (filter (\<lambda>x. \<not> P x) xs) = length xs"
    by (rule sum_length_filter_compl)
  then have "(length (filter P xs) = length xs) = (filter (\<lambda>x. \<not> P x) xs = [])"
    by auto
  also have "\<dots> = (set xs \<subseteq> {x. P x})"
    by (auto simp: filter_empty_conv)
  finally show ?thesis .
qed

text \<open>
  Claim C5 says that every unrecognised symbol is passed through unchanged, so that the
  output is as long as the input. The \<^verbatim>\<open>switch\<close> has no \<^verbatim>\<open>default\<close> label: on the
  input \<open>AxG\<close> the symbol \<open>x\<close> is dropped, the output is \<open>CT\<close> and not \<open>CxT\<close>, and it is
  one character shorter than the input.
\<close>

theorem getReverseComplement_passthrough_counterexample:
  "getReverseComplement ''AxG'' = ''CT'' \<and>
   getReverseComplement ''AxG'' \<noteq> ''CxT'' \<and>
   length (getReverseComplement ''AxG'') \<noteq> length ''AxG''"
  by (simp add: getReverseComplement_concat switchLetter_def)

text \<open>
  Claim C6, as amended. For every string of at most \<open>2\<^sup>3\<^sup>1\<close> characters made only of the
  symbols of the complement table (the nucleotides, the IUPAC ambiguity codes and the
  placeholder symbols), taking the reverse complement twice gives the string back.
\<close>

theorem getReverseComplement_involution:
  assumes "set s \<subseteq> set ''ATGCRYSWKMBDHVN.-?*''" and "length s \<le> 2 ^ 31"
  shows "getReverseComplement (getReverseComplement s) = s"
proof -
  from assms have all: "set s \<subseteq> set switchSymbols"
    by (simp only: switchSymbols_def)
  then have keep: "filter (\<lambda>c. c \<in> set switchSymbols) s = s"
    by (auto simp: filter_id_conv)
  have once: "getReverseComplement s = map complementOf (rev s)"
    using getReverseComplement_filter [OF assms(2)] keep by simp
  have len: "length (map complementOf (rev s)) \<le> 2 ^ 31"
    using assms(2) by simp
  have "set (map complementOf (rev s)) \<subseteq> set switchSymbols"
    using all complementOf_closed by auto
  then have keep': "filter (\<lambda>c. c \<in> set switchSymbols) (map complementOf (rev s)) = map complementOf (rev s)"
    by (auto simp: filter_id_conv)
  have "getReverseComplement (map complementOf (rev s)) = map complementOf (rev (map complementOf (rev s)))"
    using getReverseComplement_filter [OF len] keep' by simp
  also have "\<dots> = map (\<lambda>c. complementOf (complementOf c)) s"
    by (simp add: rev_map)
  also have "\<dots> = map (\<lambda>c. c) s"
    using all complementOf_involution by (intro map_cong) auto
  finally show ?thesis using once by simp
qed

theorem getReverseComplement_involution_witness:
  "set ''ACGTNRY-KM*BVDH.SW?'' \<subseteq> set ''ATGCRYSWKMBDHVN.-?*'' \<and>
   length ''ACGTNRY-KM*BVDH.SW?'' \<le> 2 ^ 31 \<and>
   getReverseComplement ''ACGTNRY-KM*BVDH.SW?'' = ''?WS.DHBV*KM-RYNACGT'' \<and>
   getReverseComplement (getReverseComplement ''ACGTNRY-KM*BVDH.SW?'') = ''ACGTNRY-KM*BVDH.SW?''"
proof -
  have h: "set ''ACGTNRY-KM*BVDH.SW?'' \<subseteq> set ''ATGCRYSWKMBDHVN.-?*''"
    by simp
  have l: "length ''ACGTNRY-KM*BVDH.SW?'' \<le> 2 ^ 31"
    by simp
  have v: "getReverseComplement ''ACGTNRY-KM*BVDH.SW?'' = ''?WS.DHBV*KM-RYNACGT''"
    by (simp add: getReverseComplement_concat switchLetter_def)
  show ?thesis
    using h l v getReverseComplement_involution [OF h l] by simp
qed

text \<open>
  Claim C6 as stated, for every string of valid symbols, fails: the loop index is an
  \<^verbatim>\<open>int\<close>, and for a string of \<open>2\<^sup>3\<^sup>1 + 1\<close> characters \<open>A\<close> its start value is negative, the
  body never runs and the reverse complement is empty, so that applying the function
  twice does not give the string back.
\<close>

theorem getReverseComplement_involution_counterexample:
  "set (replicate 2147483649 (CHR ''A'')) \<subseteq> set ''ATGCRYSWKMBDHVN.-?*'' \<and>
   getReverseComplement (replicate 2147483649 (CHR ''A'')) = [] \<and>
   getReverseComplement (getReverseComplement (replicate 2147483649 (CHR ''A''))) \<noteq>
     replicate 2147483649 (CHR ''A'')"
proof -
  have e: "getReverseComplement (replicate 2147483649 (CHR ''A'')) = []"
    by (simp add: getReverseComplement_def sizeMinusOne_def sizeToInt_def INT_MAX_def)
  have n: "getReverseComplement [] = []"
    by (simp add: getReverseComplement_def sizeMinusOne_def sizeToInt_def INT_MAX_def)
  show ?thesis
    by (simp add: e n)
qed

text \<open>
  Claim C10, as amended. For every input string the reverse complement is at most as
  long as the input. For every input string of at most \<open>2\<^sup>3\<^sup>1\<close> characters the lengths are
  equal exactly when every character of the input is one of the nineteen symbols of the
  switch table; a character outside the table contributes nothing to the output (the
  output is that of the input with those characters deleted), so an input with any other
  symbol, a lowercase letter for one, gives a strictly shorter strand.
\<close>

theorem getReverseComplement_length:
  "length (getReverseComplement s) \<le> length s \<and>
   (length s \<le> 2 ^ 31 \<longrightarrow>
      (length (getReverseComplement s) = length s) = (set s \<subseteq> set ''ATGCRYSWKMBDHVN.-?*'') \<and>
      (length (getReverseComplement s) < length s) = (\<not> set s \<subseteq> set ''ATGCRYSWKMBDHVN.-?*'') \<and>
      getReverseComplement s = getReverseComplement (filter (\<lambda>c. c \<in> set ''ATGCRYSWKMBDHVN.-?*'') s))"
proof -
  let ?P = "\<lambda>c. c \<in> set switchSymbols"
  have le: "length (getReverseComplement s) \<le> length s"
    by (rule getReverseComplement_length_le)
  have small: "(length (getReverseComplement s) = length s) = (set s \<subseteq> set switchSymbols) \<and>
      (length (getReverseComplement s) < length s) = (\<not> set s \<subseteq> set switchSymbols) \<and>
      getReverseComplement s = getReverseComplement (filter ?P s)"
    if s: "length s \<le> 2 ^ 31"
  proof -
    have len: "length (getReverseComplement s) = length (filter ?P s)"
      using s by (simp add: getReverseComplement_filter)
    have eq: "(length (getReverseComplement s) = length s) = (set s \<subseteq> set switchSymbols)"
      unfolding len length_filter_eq_iff by auto
    have lt: "(length (getReverseComplement s) < length s) = (\<not> set s \<subseteq> set switchSymbols)"
      using le eq by auto
    have "length (filter ?P s) \<le> length s" by (rule length_filter_le)
    from this s have fs: "length (filter ?P s) \<le> 2 ^ 31" by (rule order_trans)
    have drop: "getReverseComplement s = getReverseComplement (filter ?P s)"
      using getReverseComplement_filter [OF s] getReverseComplement_filter [OF fs]
      by simp
    show ?thesis using eq lt drop by simp
  qed
  show ?thesis
    using le small by (simp only: switchSymbols_def) blast
qed

theorem getReverseComplement_length_witness:
  "length ''ACgtN'' \<le> 2 ^ 31 \<and>
   length (getReverseComplement ''ACgtN'') = 3 \<and> length ''ACgtN'' = 5 \<and>
   \<not> set ''ACgtN'' \<subseteq> set ''ATGCRYSWKMBDHVN.-?*'' \<and>
   getReverseComplement ''ACgtN'' = getReverseComplement ''ACN''"
proof -
  have "getReverseComplement ''ACgtN'' = ''NGT''"
    by (simp add: getReverseComplement_concat switchLetter_def)
  moreover have "filter (\<lambda>c. c \<in> set ''ATGCRYSWKMBDHVN.-?*'') ''ACgtN'' = ''ACN''"
    by simp
  ultimately show ?thesis
    using getReverseComplement_length [of "''ACgtN''"] by simp
qed

text \<open>
  Claim C10 as stated, for every input string, fails in its equality part: a string of
  \<open>2\<^sup>3\<^sup>1 + 1\<close> characters \<open>A\<close> has every character in the switch table, and its reverse
  complement is empty (the \<^verbatim>\<open>int\<close> loop index starts negative).
\<close>

theorem getReverseComplement_length_counterexample:
  "set (replicate 2147483649 (CHR ''A'')) \<subseteq> set ''ATGCRYSWKMBDHVN.-?*'' \<and>
   length (getReverseComplement (replicate 2147483649 (CHR ''A''))) = 0 \<and>
   length (getReverseComplement (replicate 2147483649 (CHR ''A''))) \<noteq>
     length (replicate 2147483649 (CHR ''A''))"
  by (simp add: getReverseComplement_def sizeMinusOne_def sizeToInt_def INT_MAX_def)


section \<open>Properties of the comparison of doubles\<close>

lemma double_le_NaN_right: "\<not> double_le x NaN"
  by (cases x) simp_all

lemma double_le_total: "x \<noteq> NaN \<Longrightarrow> y \<noteq> NaN \<Longrightarrow> double_le x y \<or> double_le y x"
  by (cases x; cases y) auto

lemma double_le_trans: "double_le x y \<Longrightarrow> double_le y z \<Longrightarrow> double_le x z"
  by (cases x; cases y; cases z) auto

lemma double_less_trans: "double_less x y \<Longrightarrow> double_less y z \<Longrightarrow> double_less x z"
  by (cases x; cases y; cases z) (auto simp: double_less_def)

lemma double_less_irrefl: "\<not> double_less x x"
  by (simp add: double_less_def)

lemma not_double_le_iff:
  "s \<noteq> NaN \<Longrightarrow> (\<not> double_le x s) = (x = NaN \<or> double_less s x)"
  by (cases x; cases s) (auto simp: double_less_def)

lemma double_max_kept:
  "s \<noteq> NaN \<Longrightarrow> x \<noteq> NaN \<Longrightarrow> \<not> double_le x s \<Longrightarrow> double_max s x = x"
  using double_le_total [of s x] by (auto simp: double_max_def)


section \<open>Properties of the refinement over band sizes\<close>

lemma successfulScores_Nil: "successfulScores [] = []"
  by (simp add: successfulScores_def)

lemma successfulScores_Cons:
  "successfulScores (a # as) =
     (case bandResult a of Some x \<Rightarrow> [m_scaledScore x] | None \<Rightarrow> []) @ successfulScores as"
  by (simp add: successfulScores_def)

lemma latestScore_Nil: "latestScore s [] = s"
  by (simp add: latestScore_def successfulScores_Nil)

lemma latestScore_Cons:
  "latestScore s (a # as) =
     latestScore (case bandResult a of Some x \<Rightarrow> m_scaledScore x | None \<Rightarrow> s) as"
  by (simp add: latestScore_def successfulScores_Cons split: option.splits)

lemma bestScoreSoFar_Nil: "bestScoreSoFar s [] = s"
  by (simp add: bestScoreSoFar_def successfulScores_Nil)

lemma bestScoreSoFar_Cons:
  "bestScoreSoFar s (a # as) =
     bestScoreSoFar (case bandResult a of Some x \<Rightarrow> double_max s (m_scaledScore x) | None \<Rightarrow> s) as"
  by (simp add: bestScoreSoFar_def successfulScores_Cons split: option.splits)

lemma numericScores_Cons:
  "numericScores (a # as) =
     ((case bandResult a of Some x \<Rightarrow> m_scaledScore x \<noteq> NaN | None \<Rightarrow> True) \<and> numericScores as)"
  by (simp add: numericScores_def successfulScores_Cons split: option.splits)

lemma numericScores_Nil: "numericScores []"
  by (simp add: numericScores_def successfulScores_Nil)

lemma keepBest_None:
  "keepBest r best s = None \<longleftrightarrow> (\<exists>x. r = Some x \<and> double_le (m_scaledScore x) s)"
  by (auto simp: keepBest_def Let_def split: option.splits)

lemma keepBest_Some:
  "keepBest r best s = Some (best', s') \<Longrightarrow>
     (r = None \<and> best' = best \<and> s' = s) \<or>
     (\<exists>x. r = Some x \<and> \<not> double_le (m_scaledScore x) s \<and> best' = r \<and> s' = m_scaledScore x)"
  by (auto simp: keepBest_def Let_def split: option.splits if_splits)

lemma refinementTrace_single:
  assumes b: "b \<le> M"
    and kb: "keepBest (prim (clamp b)) best0 s0 = None \<and> best = best0 \<or>
             keepBest (prim (clamp b)) best0 s0 = Some (best, s1) \<and> M < 2 * b"
  shows "refinementTrace prim clamp M b best0 s0 best
           [\<lparr>requestedBand = b, passedBand = clamp b, bandResult = prim (clamp b), bestBefore = s0\<rparr>]"
proof -
  let ?e = "\<lparr>requestedBand = b, passedBand = clamp b, bandResult = prim (clamp b), bestBefore = s0\<rparr>"
  have stop: "nonImproving ?e \<or> M < 2 * requestedBand ?e"
    using kb by (auto simp: nonImproving_def keepBest_None)
  have kept: "best = best0 \<or>
       list_ex (\<lambda>a. bandResult a = best \<and> best \<noteq> None \<and> \<not> nonImproving a) [?e] \<and>
       list_ex (\<lambda>a. case bandResult a of
                      Some x \<Rightarrow> \<not> double_le (m_scaledScore x) s0
                    | None \<Rightarrow> False) [?e]"
    using kb by (auto simp: nonImproving_def dest!: keepBest_Some)
  have above: "s0 \<noteq> NaN \<and> numericScores [?e] \<longrightarrow>
         best = best0 \<or>
         (case best of Some x \<Rightarrow> double_less s0 (m_scaledScore x) | None \<Rightarrow> False)"
    using kb
    by (auto simp: numericScores_Cons not_double_le_iff dest!: keepBest_Some)
  have some: "best0 \<noteq> None \<or> list_ex (\<lambda>a. bandResult a \<noteq> None \<and> \<not> nonImproving a) [?e] \<longrightarrow> best \<noteq> None"
    using kb by (auto simp: nonImproving_def keepBest_None dest!: keepBest_Some)
  show ?thesis
    unfolding refinementTrace_def
    using b stop kept above some
    by (simp add: latestScore_Nil bestScoreSoFar_Nil)
qed

lemma refinementTrace_step:
  assumes b: "b * 2 \<le> M" "b \<le> M"
    and kb: "keepBest (prim (clamp b)) best0 s0 = Some (best1, s1)"
    and rest: "refinementTrace prim clamp M (b * 2) best1 s1 best rest"
  shows "refinementTrace prim clamp M b best0 s0 best
           (\<lparr>requestedBand = b, passedBand = clamp b, bandResult = prim (clamp b), bestBefore = s0\<rparr> # rest)"
proof -
  let ?e = "\<lparr>requestedBand = b, passedBand = clamp b, bandResult = prim (clamp b), bestBefore = s0\<rparr>"
  from rest have ne: "rest \<noteq> []" by (simp add: refinementTrace_def)
  from kb have notNI: "\<not> nonImproving ?e"
    by (auto simp: nonImproving_def dest!: keepBest_Some)
  from kb have s1: "(case prim (clamp b) of Some x \<Rightarrow> m_scaledScore x | None \<Rightarrow> s0) = s1"
    by (auto dest!: keepBest_Some)
  have 1: "map requestedBand (?e # rest) = map (\<lambda>k. b * 2 ^ k) [0..<length (?e # rest)]"
    using rest by (simp add: refinementTrace_def map_upt_Suc del: upt_Suc)
  have 2: "map bestBefore (?e # rest) = map (\<lambda>k. latestScore s0 (take k (?e # rest))) [0..<length (?e # rest)]"
    using rest s1
    by (simp add: refinementTrace_def map_upt_Suc latestScore_Nil latestScore_Cons del: upt_Suc)
  have 3: "map bestBefore (?e # rest) =
             map (\<lambda>k. bestScoreSoFar s0 (take k (?e # rest))) [0..<length (?e # rest)]"
    if num: "s0 \<noteq> NaN" "numericScores (?e # rest)"
  proof -
    from num kb have s1n: "s1 \<noteq> NaN" and nr: "numericScores rest"
      by (auto simp: numericScores_Cons dest!: keepBest_Some)
    from num kb have m: "(case prim (clamp b) of Some x \<Rightarrow> double_max s0 (m_scaledScore x) | None \<Rightarrow> s0) = s1"
      by (auto simp: numericScores_Cons double_max_kept dest!: keepBest_Some)
    from rest s1n nr have "map bestBefore rest = map (\<lambda>k. bestScoreSoFar s1 (take k rest)) [0..<length rest]"
      unfolding refinementTrace_def by blast
    then show ?thesis
      using m by (simp add: map_upt_Suc bestScoreSoFar_Nil bestScoreSoFar_Cons del: upt_Suc)
  qed
  have 4: "best = best0 \<or>
       list_ex (\<lambda>a. bandResult a = best \<and> best \<noteq> None \<and> \<not> nonImproving a) (?e # rest) \<and>
       list_ex (\<lambda>a. case bandResult a of
                      Some x \<Rightarrow> \<not> double_le (m_scaledScore x) s0
                    | None \<Rightarrow> False) (?e # rest)"
  proof (cases "prim (clamp b)")
    case None
    with kb have "best1 = best0" "s1 = s0" by (auto dest!: keepBest_Some)
    with rest show ?thesis by (auto simp: refinementTrace_def)
  next
    case (Some x)
    with kb have x: "best1 = Some x" "\<not> double_le (m_scaledScore x) s0"
      by (auto dest!: keepBest_Some)
    from rest have "best = best1 \<or>
        list_ex (\<lambda>a. bandResult a = best \<and> best \<noteq> None \<and> \<not> nonImproving a) rest"
      by (auto simp: refinementTrace_def)
    with x Some notNI show ?thesis by auto
  qed
  have 5: "best = best0 \<or>
         (case best of Some x \<Rightarrow> double_less s0 (m_scaledScore x) | None \<Rightarrow> False)"
    if num: "s0 \<noteq> NaN" "numericScores (?e # rest)"
  proof (cases "prim (clamp b)")
    case None
    with kb have "best1 = best0" "s1 = s0" by (auto dest!: keepBest_Some)
    with rest num show ?thesis by (simp add: refinementTrace_def numericScores_Cons)
  next
    case (Some x)
    with kb have x: "best1 = Some x" "s1 = m_scaledScore x" "\<not> double_le (m_scaledScore x) s0"
      by (auto dest!: keepBest_Some)
    from num Some have xn: "m_scaledScore x \<noteq> NaN" and nr: "numericScores rest"
      by (simp_all add: numericScores_Cons)
    from x(3) xn num(1) have lt: "double_less s0 (m_scaledScore x)"
      by (simp add: not_double_le_iff)
    from rest xn nr x have "best = Some x \<or>
         (case best of Some y \<Rightarrow> double_less (m_scaledScore x) (m_scaledScore y) | None \<Rightarrow> False)"
      by (simp add: refinementTrace_def)
    with lt show ?thesis
      by (auto split: option.splits intro: double_less_trans)
  qed
  have 6: "best0 \<noteq> None \<or> list_ex (\<lambda>a. bandResult a \<noteq> None \<and> \<not> nonImproving a) (?e # rest) \<longrightarrow> best \<noteq> None"
    using rest kb by (auto simp: refinementTrace_def dest!: keepBest_Some)
  show ?thesis
    unfolding refinementTrace_def
    using 1 2 3 4 5 6 b notNI ne rest
    by (simp add: refinementTrace_def)
qed

lemma bandSizeLoop_trace:
  assumes ob: "\<And>b out. \<exists>out'. oneBand b out = (prim (clamp b), out', clamp b)"
  shows "0 < b \<Longrightarrow> b \<le> M \<Longrightarrow> M < 2 ^ 30 \<Longrightarrow>
         \<exists>best out' new.
           bandSizeLoop M oneBand b best0 s0 out0 acc = Some (Returns (best, out', acc @ new)) \<and>
           refinementTrace prim clamp M b best0 s0 best new"
proof (induction "nat (M - b)" arbitrary: b best0 s0 out0 acc rule: less_induct)
  case less
  obtain out1 where o1: "oneBand b out0 = (prim (clamp b), out1, clamp b)"
    using ob [of b out0] by blast
  let ?e = "\<lparr>requestedBand = b, passedBand = clamp b, bandResult = prim (clamp b), bestBefore = s0\<rparr>"
  have range: "\<not> (b * 2 > INT_MAX \<or> b * 2 < INT_MIN)"
    using less.prems by (simp add: INT_MAX_def INT_MIN_def)
  show ?case
  proof (cases "keepBest (prim (clamp b)) best0 s0")
    case None
    then have "bandSizeLoop M oneBand b best0 s0 out0 acc = Some (Returns (best0, out1, acc @ [?e]))"
      by (subst bandSizeLoop.simps) (simp add: o1)
    moreover have "refinementTrace prim clamp M b best0 s0 best0 [?e]"
      using None less.prems by (intro refinementTrace_single) auto
    ultimately show ?thesis by blast
  next
    case (Some p)
    obtain best1 s1 where p: "p = (best1, s1)" by (cases p)
    show ?thesis
    proof (cases "b * 2 > M")
      case True
      then have "bandSizeLoop M oneBand b best0 s0 out0 acc = Some (Returns (best1, out1, acc @ [?e]))"
        using Some p range by (subst bandSizeLoop.simps) (simp add: o1)
      moreover have "refinementTrace prim clamp M b best0 s0 best1 [?e]"
        using Some p True less.prems by (intro refinementTrace_single [where ?s1.0 = s1]) auto
      ultimately show ?thesis by blast
    next
      case False
      then have unfold: "bandSizeLoop M oneBand b best0 s0 out0 acc =
                   bandSizeLoop M oneBand (b * 2) best1 s1 out1 (acc @ [?e])"
        using Some p range by (subst bandSizeLoop.simps) (simp add: o1)
      have "nat (M - b * 2) < nat (M - b)" using less.prems False by simp
      from less.hyps [OF this, of best1 s1 out1 "acc @ [?e]"] less.prems False
      obtain best out' rest where
        r: "bandSizeLoop M oneBand (b * 2) best1 s1 out1 (acc @ [?e]) =
              Some (Returns (best, out', (acc @ [?e]) @ rest))"
        and t: "refinementTrace prim clamp M (b * 2) best1 s1 best rest"
        by auto
      have "refinementTrace prim clamp M b best0 s0 best (?e # rest)"
        using less.prems Some p t False by (intro refinementTrace_step [where ?s1.0 = s1 and ?best1.0 = best1]) auto
      with unfold r show ?thesis by auto
    qed
  qed
qed

lemma semiGlobalAlignmentOneLineOneBand_shape:
  "\<exists>out'. semiGlobalAlignmentOneLineOneBand env readSeq readLen refSeq refLen line b verbosity out sc =
           (bandedChainAlignment env readSeq refSeq line sc (min b (min readLen refLen)), out',
            min b (min readLen refLen))"
proof -
  have m: "(if b > min readLen refLen then min readLen refLen else b) = min b (min readLen refLen)"
    by (auto simp: min_def)
  show ?thesis
    unfolding semiGlobalAlignmentOneLineOneBand_def Let_def m
    by (cases "bandedChainAlignment env readSeq refSeq line sc (min b (min readLen refLen))") simp_all
qed

lemma substr_in_range:
  assumes "0 \<le> pos" and "pos \<le> int (length s)"
  shows "\<exists>t. substr s pos len = Returns t \<and>
             (0 \<le> len \<and> pos + len \<le> int (length s) \<longrightarrow> int (length t) = len)"
  using assms by (auto simp: substr_def)

lemma semiGlobalAlignmentOneLine_trace:
  assumes S: "0 < STARTING_BAND_SIZE st" "STARTING_BAND_SIZE st \<le> MAX_BAND_SIZE st"
             "MAX_BAND_SIZE st < 2 ^ 30"
    and range: "INT_MIN \<le> m_trimmedRefEnd line - m_trimmedRefStart line"
               "m_trimmedRefEnd line - m_trimmedRefStart line \<le> INT_MAX"
    and sub: "substr refSeq (m_trimmedRefStart line) (m_trimmedRefEnd line - m_trimmedRefStart line)
                = Returns trimmedRefSeq"
  shows "\<exists>best out attempts.
           semiGlobalAlignmentOneLine st env readSeq refSeq line verbosity out0 sc =
             Some (Returns (map_option (\<lambda>a. a\<lparr>m_milliseconds := elapsedTime env\<rparr>) best, out, attempts)) \<and>
           refinementTrace (bandedChainAlignment env readSeq trimmedRefSeq line sc)
             (\<lambda>b. min b (min (sizeToInt (length readSeq))
                             (m_trimmedRefEnd line - m_trimmedRefStart line)))
             (MAX_BAND_SIZE st) (STARTING_BAND_SIZE st) None (Finite DBL_MIN) best attempts"
proof -
  let ?oneBand = "\<lambda>bandSize out.
      semiGlobalAlignmentOneLineOneBand env readSeq (sizeToInt (length readSeq)) trimmedRefSeq
        (m_trimmedRefEnd line - m_trimmedRefStart line) line bandSize verbosity out sc"
  have "\<exists>best out' new.
          bandSizeLoop (MAX_BAND_SIZE st) ?oneBand (STARTING_BAND_SIZE st) None (Finite DBL_MIN) out0 [] =
            Some (Returns (best, out', [] @ new)) \<and>
          refinementTrace (bandedChainAlignment env readSeq trimmedRefSeq line sc)
            (\<lambda>b. min b (min (sizeToInt (length readSeq))
                            (m_trimmedRefEnd line - m_trimmedRefStart line)))
            (MAX_BAND_SIZE st) (STARTING_BAND_SIZE st) None (Finite DBL_MIN) best new"
    using S by (intro bandSizeLoop_trace semiGlobalAlignmentOneLineOneBand_shape)
  then obtain best out' new where
    loop: "bandSizeLoop (MAX_BAND_SIZE st) ?oneBand (STARTING_BAND_SIZE st) None (Finite DBL_MIN) out0 [] =
             Some (Returns (best, out', new))"
    and tr: "refinementTrace (bandedChainAlignment env readSeq trimmedRefSeq line sc)
            (\<lambda>b. min b (min (sizeToInt (length readSeq))
                            (m_trimmedRefEnd line - m_trimmedRefStart line)))
            (MAX_BAND_SIZE st) (STARTING_BAND_SIZE st) None (Finite DBL_MIN) best new"
    by auto
  have "semiGlobalAlignmentOneLine st env readSeq refSeq line verbosity out0 sc =
          Some (Returns (map_option (\<lambda>a. a\<lparr>m_milliseconds := elapsedTime env\<rparr>) best, out', new))"
    using range by (simp add: semiGlobalAlignmentOneLine_def Let_def sub loop bindOutcome_def)
  with tr show ?thesis by blast
qed

lemma DBL_MIN_pos: "0 < DBL_MIN"
  by (simp add: DBL_MIN_def)

lemma map_eq_nth:
  assumes "map f xs = map g [0..<length xs]" and "k < length xs"
  shows "f (xs ! k) = g k"
proof -
  have "map f xs ! k = map g [0..<length xs] ! k" using assms(1) by simp
  then show ?thesis using assms(2) by simp
qed

lemma successfulScores_failures:
  "list_all (\<lambda>f. bandResult f = None) fs \<Longrightarrow> successfulScores fs = []"
  by (induction fs) (simp_all add: successfulScores_Nil successfulScores_Cons)

lemma latestScore_failures:
  "list_all (\<lambda>f. bandResult f = None) fs \<Longrightarrow> latestScore s fs = s"
  by (simp add: latestScore_def successfulScores_failures)





text \<open>
  Claim C9, as amended. The best score starts at \<open>DBL_MIN\<close>, which is positive. Under the
  same conditions on the constants, and for a line that starts within the reference and
  whose length is within the range of \<^verbatim>\<open>int\<close>, the refinement returns. It returns an
  alignment only if some attempt gave that alignment and some attempt gave a scaled
  score for which \<^verbatim>\<open>score <= DBL_MIN\<close> is false, that is a score strictly above
  \<open>DBL_MIN\<close> or a NaN; when no score is a NaN, the score of the returned alignment is
  strictly above \<open>DBL_MIN\<close>. If the first attempt that gives an alignment gives one with
  a scaled score of at most zero, that attempt is the last one and the function returns
  none.
\<close>

theorem semiGlobalAlignmentOneLine_smallest_positive:
  assumes "0 < STARTING_BAND_SIZE st" and "STARTING_BAND_SIZE st \<le> MAX_BAND_SIZE st"
    and "MAX_BAND_SIZE st < 2 ^ 30"
    and "0 \<le> m_trimmedRefStart line" and "m_trimmedRefStart line \<le> int (length refSeq)"
    and "INT_MIN \<le> m_trimmedRefEnd line - m_trimmedRefStart line"
    and "m_trimmedRefEnd line - m_trimmedRefStart line \<le> INT_MAX"
  shows "0 < DBL_MIN \<and>
    (\<exists>best out attempts.
       semiGlobalAlignmentOneLine st env readSeq refSeq line verbosity output scoringScheme =
         Some (Returns (best, out, attempts)) \<and>
       bestBefore (hd attempts) = Finite DBL_MIN \<and>
       (best \<noteq> None \<longrightarrow>
          list_ex (\<lambda>a. best = map_option (\<lambda>x. x\<lparr>m_milliseconds := elapsedTime env\<rparr>) (bandResult a))
            attempts \<and>
          list_ex (\<lambda>a. case bandResult a of
                         Some x \<Rightarrow> m_scaledScore x = NaN \<or>
                                   double_less (Finite DBL_MIN) (m_scaledScore x)
                       | None \<Rightarrow> False) attempts) \<and>
       (numericScores attempts \<longrightarrow>
          (case best of
             Some y \<Rightarrow> double_less (Finite DBL_MIN) (m_scaledScore y)
           | None \<Rightarrow> True)) \<and>
       (\<forall>fs a rest x.
          attempts = fs @ a # rest \<and> list_all (\<lambda>f. bandResult f = None) fs \<and>
          bandResult a = Some x \<and> double_le (m_scaledScore x) (Finite 0)
          \<longrightarrow> rest = [] \<and> best = None))"
proof -
  obtain t where sub: "substr refSeq (m_trimmedRefStart line)
                         (m_trimmedRefEnd line - m_trimmedRefStart line) = Returns t"
    using substr_in_range [of "m_trimmedRefStart line" refSeq] assms by blast
  from semiGlobalAlignmentOneLine_trace [OF assms(1-3) assms(6,7) sub, where env = env and readSeq = readSeq
      and verbosity = verbosity and ?out0.0 = "output" and sc = scoringScheme]
  obtain best out attempts where
    run: "semiGlobalAlignmentOneLine st env readSeq refSeq line verbosity output scoringScheme =
            Some (Returns (map_option (\<lambda>a. a\<lparr>m_milliseconds := elapsedTime env\<rparr>) best, out, attempts))"
    and tr: "refinementTrace (bandedChainAlignment env readSeq t line scoringScheme)
               (\<lambda>b. min b (min (sizeToInt (length readSeq))
                               (m_trimmedRefEnd line - m_trimmedRefStart line)))
               (MAX_BAND_SIZE st) (STARTING_BAND_SIZE st) None (Finite DBL_MIN) best attempts"
    by blast
  let ?ms = "map_option (\<lambda>a. a\<lparr>m_milliseconds := elapsedTime env\<rparr>)"
  from tr have ne: "attempts \<noteq> []"
    and bb: "map bestBefore attempts =
               map (\<lambda>k. latestScore (Finite DBL_MIN) (take k attempts)) [0..<length attempts]"
    and bl: "list_all (\<lambda>a. \<not> nonImproving a \<and> 2 * requestedBand a \<le> MAX_BAND_SIZE st) (butlast attempts)"
    and ex: "best = None \<or>
             list_ex (\<lambda>a. bandResult a = best \<and> best \<noteq> None \<and> \<not> nonImproving a) attempts \<and>
             list_ex (\<lambda>a. case bandResult a of
                            Some x \<Rightarrow> \<not> double_le (m_scaledScore x) (Finite DBL_MIN)
                          | None \<Rightarrow> False) attempts"
    and num: "numericScores attempts \<longrightarrow>
                best = None \<or>
                (case best of Some x \<Rightarrow> double_less (Finite DBL_MIN) (m_scaledScore x) | None \<Rightarrow> False)"
    unfolding refinementTrace_def by blast+
  have first: "bestBefore (hd attempts) = Finite DBL_MIN"
    using map_eq_nth [OF bb, of 0] ne by (simp add: hd_conv_nth latestScore_Nil)
  have a: "?ms best \<noteq> None \<longrightarrow>
          list_ex (\<lambda>a. ?ms best = ?ms (bandResult a)) attempts \<and>
          list_ex (\<lambda>a. case bandResult a of
                         Some x \<Rightarrow> m_scaledScore x = NaN \<or>
                                   double_less (Finite DBL_MIN) (m_scaledScore x)
                       | None \<Rightarrow> False) attempts"
    using ex by (auto simp: list_ex_iff not_double_le_iff split: option.splits)
  have n: "numericScores attempts \<longrightarrow>
          (case ?ms best of
             Some y \<Rightarrow> double_less (Finite DBL_MIN) (m_scaledScore y)
           | None \<Rightarrow> True)"
    using num by (auto split: option.splits)
  have b: "rest = [] \<and> ?ms best = None"
    if split: "attempts = fs @ a # rest" and fails: "list_all (\<lambda>f. bandResult f = None) fs"
      and res: "bandResult a = Some x" and low: "double_le (m_scaledScore x) (Finite 0)" for fs a rest x
  proof -
    have "bestBefore (attempts ! length fs) = latestScore (Finite DBL_MIN) (take (length fs) attempts)"
      using map_eq_nth [OF bb, of "length fs"] split by simp
    then have "bestBefore a = Finite DBL_MIN"
      using split fails by (simp add: latestScore_failures)
    moreover have "double_le (m_scaledScore x) (Finite DBL_MIN)"
      using low DBL_MIN_pos by (intro double_le_trans [OF low]) simp
    ultimately have ni: "nonImproving a"
      using res by (simp add: nonImproving_def)
    have rest: "rest = []"
    proof (rule ccontr)
      assume "rest \<noteq> []"
      then have "a \<in> set (butlast attempts)"
        using split by (simp add: butlast_append)
      with bl ni show False by (auto simp: list_all_iff)
    qed
    have "best = None"
    proof (rule ccontr)
      assume nb: "best \<noteq> None"
      with ex obtain a' where a': "a' \<in> set attempts" "bandResult a' = best" "\<not> nonImproving a'"
        by (auto simp: list_ex_iff)
      from a'(1,2) nb split rest fails have "a' = a" by (auto simp: list_all_iff)
      with a'(3) ni show False by simp
    qed
    with rest show ?thesis by simp
  qed
  show ?thesis
    using DBL_MIN_pos run first a n b by blast
qed

theorem semiGlobalAlignmentOneLine_smallest_positive_witness:
  "0 < STARTING_BAND_SIZE exampleSettings \<and>
   STARTING_BAND_SIZE exampleSettings \<le> MAX_BAND_SIZE exampleSettings \<and>
   MAX_BAND_SIZE exampleSettings < 2 ^ 30 \<and>
   0 \<le> m_trimmedRefStart (exampleLine 3 33) \<and>
   m_trimmedRefStart (exampleLine 3 33) \<le> int (length exampleRef) \<and>
   INT_MIN \<le> m_trimmedRefEnd (exampleLine 3 33) - m_trimmedRefStart (exampleLine 3 33) \<and>
   m_trimmedRefEnd (exampleLine 3 33) - m_trimmedRefStart (exampleLine 3 33) \<le> INT_MAX \<and>
   semiGlobalAlignmentOneLine exampleSettings (exampleCollaborators [] True negativePrimitive)
       exampleRead exampleRef (exampleLine 3 33) 0 [] exampleScoring =
     Some (Returns (None, [],
       [\<lparr>requestedBand = 10, passedBand = 10, bandResult = None, bestBefore = Finite DBL_MIN\<rparr>,
        \<lparr>requestedBand = 20, passedBand = 20, bandResult = Some (exampleAlignment (- 5) ''25M''),
           bestBefore = Finite DBL_MIN\<rparr>]))"
  using semiGlobalAlignmentOneLine_smallest_positive [of exampleSettings "exampleLine 3 33" exampleRef
          "exampleCollaborators [] True negativePrimitive" exampleRead 0 "[]" exampleScoring]
  by (simp add: semiGlobalAlignmentOneLine_def exampleSettings_def exampleCollaborators_def
        negativePrimitive_def exampleLine_def exampleAlignment_def nanAlignment_def exampleRead_def exampleRef_def
        substr_def bindOutcome_def bandSizeLoop.simps semiGlobalAlignmentOneLineOneBand_def
        keepBest_def INT_MAX_def INT_MIN_def DBL_MIN_def sizeToInt_def Let_def)

text \<open>
  Claim C9 as stated fails when a score is a NaN. With a primitive that scores NaN and
  then -5, the NaN is kept (\<^verbatim>\<open>NaN <= DBL_MIN\<close> is false) and then the -5 is kept
  (\<^verbatim>\<open>-5 <= NaN\<close> is false): the function returns the alignment that scores -5, and no
  attempt gave a score strictly above \<open>DBL_MIN\<close>.
\<close>

theorem semiGlobalAlignmentOneLine_smallest_positive_counterexample:
  "semiGlobalAlignmentOneLine exampleSettings (exampleCollaborators [] True nanNegativePrimitive)
       exampleRead exampleRef (exampleLine 3 33) 0 [] exampleScoring =
     Some (Returns (Some ((exampleAlignment (- 5) ''25M'')\<lparr>m_milliseconds := 7\<rparr>), [],
       [\<lparr>requestedBand = 10, passedBand = 10, bandResult = Some (nanAlignment ''25M''),
           bestBefore = Finite DBL_MIN\<rparr>,
        \<lparr>requestedBand = 20, passedBand = 20, bandResult = Some (exampleAlignment (- 5) ''25M''),
           bestBefore = NaN\<rparr>,
        \<lparr>requestedBand = 40, passedBand = 25, bandResult = Some (exampleAlignment (- 5) ''25M''),
           bestBefore = Finite (- 5)\<rparr>])) \<and>
   \<not> double_less (Finite DBL_MIN) NaN \<and>
   \<not> double_less (Finite DBL_MIN) (Finite (- 5))"
  by (simp add: semiGlobalAlignmentOneLine_def exampleSettings_def exampleCollaborators_def
        nanNegativePrimitive_def exampleLine_def exampleAlignment_def nanAlignment_def exampleRead_def exampleRef_def
        substr_def bindOutcome_def bandSizeLoop.simps semiGlobalAlignmentOneLineOneBand_def
        keepBest_def INT_MAX_def INT_MIN_def DBL_MIN_def sizeToInt_def Let_def
        double_less_def)

text \<open>
  What claim C8 says of the loop: after a band that failed, the loop goes on to the
  doubled band size when that is within the ceiling; and the refinement returns none only
  when every attempt failed, or every attempt but the last failed and the last gave a
  score that compares \<^verbatim>\<open><=\<close> to \<open>DBL_MIN\<close>.
\<close>

lemma semiGlobalAlignmentOneLine_primitive_failures:
  assumes "0 < STARTING_BAND_SIZE st" and "STARTING_BAND_SIZE st \<le> MAX_BAND_SIZE st"
    and "MAX_BAND_SIZE st < 2 ^ 30"
    and "0 \<le> m_trimmedRefStart line" and "m_trimmedRefStart line \<le> int (length refSeq)"
    and "INT_MIN \<le> m_trimmedRefEnd line - m_trimmedRefStart line"
    and "m_trimmedRefEnd line - m_trimmedRefStart line \<le> INT_MAX"
  shows "\<exists>best out attempts.
       semiGlobalAlignmentOneLine st env readSeq refSeq line verbosity out0 scoringScheme =
         Some (Returns (best, out, attempts)) \<and>
       (\<forall>k. k < length attempts \<and> bandResult (attempts ! k) = None \<and>
            2 * requestedBand (attempts ! k) \<le> MAX_BAND_SIZE st
            \<longrightarrow> Suc k < length attempts \<and>
                requestedBand (attempts ! Suc k) = 2 * requestedBand (attempts ! k)) \<and>
       (best = None \<longrightarrow>
          list_all (\<lambda>a. bandResult a = None) (butlast attempts) \<and>
          (bandResult (last attempts) = None \<or>
           nonImproving (last attempts) \<and> bestBefore (last attempts) = Finite DBL_MIN))"
proof -
  obtain t where sub: "substr refSeq (m_trimmedRefStart line)
                         (m_trimmedRefEnd line - m_trimmedRefStart line) = Returns t"
    using substr_in_range [of "m_trimmedRefStart line" refSeq] assms by blast
  from semiGlobalAlignmentOneLine_trace [OF assms(1-3) assms(6,7) sub, where env = env and readSeq = readSeq
      and verbosity = verbosity and ?out0.0 = out0 and sc = scoringScheme]
  obtain best out attempts where
    run: "semiGlobalAlignmentOneLine st env readSeq refSeq line verbosity out0 scoringScheme =
            Some (Returns (map_option (\<lambda>a. a\<lparr>m_milliseconds := elapsedTime env\<rparr>) best, out, attempts))"
    and tr: "refinementTrace (bandedChainAlignment env readSeq t line scoringScheme)
               (\<lambda>b. min b (min (sizeToInt (length readSeq))
                               (m_trimmedRefEnd line - m_trimmedRefStart line)))
               (MAX_BAND_SIZE st) (STARTING_BAND_SIZE st) None (Finite DBL_MIN) best attempts"
    by blast
  from tr have ne: "attempts \<noteq> []"
    and rq: "map requestedBand attempts = map (\<lambda>k. STARTING_BAND_SIZE st * 2 ^ k) [0..<length attempts]"
    and bb: "map bestBefore attempts =
               map (\<lambda>k. latestScore (Finite DBL_MIN) (take k attempts)) [0..<length attempts]"
    and bl: "list_all (\<lambda>a. \<not> nonImproving a \<and> 2 * requestedBand a \<le> MAX_BAND_SIZE st) (butlast attempts)"
    and la: "nonImproving (last attempts) \<or> MAX_BAND_SIZE st < 2 * requestedBand (last attempts)"
    and ex: "list_ex (\<lambda>a. bandResult a \<noteq> None \<and> \<not> nonImproving a) attempts \<longrightarrow> best \<noteq> None"
    unfolding refinementTrace_def by blast+
  have goes_on: "Suc k < length attempts \<and>
                 requestedBand (attempts ! Suc k) = 2 * requestedBand (attempts ! k)"
    if k: "k < length attempts" and failed: "bandResult (attempts ! k) = None"
      and room: "2 * requestedBand (attempts ! k) \<le> MAX_BAND_SIZE st" for k
  proof -
    have "Suc k \<noteq> length attempts"
    proof
      assume "Suc k = length attempts"
      then have "length attempts - 1 = k" by simp
      then have "last attempts = attempts ! k"
        using ne by (simp add: last_conv_nth)
      with la failed room show False by (simp add: nonImproving_def)
    qed
    with k have sk: "Suc k < length attempts" by simp
    have "requestedBand (attempts ! Suc k) = STARTING_BAND_SIZE st * 2 ^ Suc k"
      using map_eq_nth [OF rq sk] .
    moreover have "requestedBand (attempts ! k) = STARTING_BAND_SIZE st * 2 ^ k"
      using map_eq_nth [OF rq k] .
    ultimately show ?thesis using sk by simp
  qed
  have none: "list_all (\<lambda>a. bandResult a = None) (butlast attempts) \<and>
          (bandResult (last attempts) = None \<or>
           nonImproving (last attempts) \<and> bestBefore (last attempts) = Finite DBL_MIN)"
    if "best = None"
  proof -
    from that ex have all: "\<And>a. a \<in> set attempts \<Longrightarrow> bandResult a = None \<or> nonImproving a"
      by (auto simp: list_ex_iff)
    have early: "list_all (\<lambda>a. bandResult a = None) (butlast attempts)"
      using all bl by (auto simp: list_all_iff dest: in_set_butlastD)
    have "bestBefore (attempts ! (length attempts - 1)) =
            latestScore (Finite DBL_MIN) (take (length attempts - 1) attempts)"
      using map_eq_nth [OF bb, of "length attempts - 1"] ne by simp
    then have "bestBefore (last attempts) = Finite DBL_MIN"
      using ne early by (simp add: last_conv_nth butlast_conv_take latestScore_failures)
    with all [of "last attempts"] ne early show ?thesis by auto
  qed
  show ?thesis
    using run goes_on none by (intro exI conjI) (assumption, blast, simp)
qed


section \<open>Properties of the level driver and of the entry point\<close>

lemmas run_defs =
  semiGlobalAlignmentAllRefs_def semiGlobalAlignmentAllRefsOneLevel_def levelSettings_def
  exampleSettings_def exampleCollaborators_def exampleLine_def exampleAlignment_def
  exampleIndex_def exampleIndexWithRead_def exampleForward_def exampleReverse_def
  examplePrimitive_def negativePrimitive_def failingPrimitive_def linePrimitive_def
  nanPrimitive_def nanNegativePrimitive_def nanAlignment_def
  getAllNames_def addPositions_def deletePositions_def getSequence_def getLength_def
  sizeToInt_def sizeMinusOne_def
  getReverseComplement_concat switchLetter_def keepCommonKmerSet_def newCommonKmerSet_def
  bindOutcome_def cleanUpAndReturn_def cppStringToCString_def
  semiGlobalAlignmentOneLine_def substr_def bandSizeLoop.simps semiGlobalAlignmentOneLineOneBand_def
  keepBest_def INT_MAX_def INT_MIN_def DBL_MIN_def Let_def

lemma semiGlobalAlignmentAllRefsOneLevel_values:
  assumes "semiGlobalAlignmentAllRefsOneLevel st env sets kp verbosity out0 ms mms go ge level maxScore =
             Some (Returns (alignments, out, visits, vals))"
  shows "vals = (case levelSettings st level of
                   (low, high, rest) \<Rightarrow> (low * maxScore, high * maxScore, rest))"
  using assms
  by (auto simp: semiGlobalAlignmentAllRefsOneLevel_def bindOutcome_def Let_def
           split: prod.splits option.splits outcome.splits)

text \<open>
  Whatever the input, every call of the level driver that an invocation makes works with
  the level 1 values.
\<close>

lemma semiGlobalAlignmentAllRefs_values:
  assumes "semiGlobalAlignmentAllRefs st env readName readSeq verbosity slope kp ms mms go ge low =
             Some (Returns (buffer, kp', vals))"
  shows "\<exists>maxScore. set vals \<subseteq> {case levelSettings st 1 of
                   (low, high, rest) \<Rightarrow> (low * maxScore, high * maxScore, rest)}"
  using assms
  unfolding semiGlobalAlignmentAllRefs_def Let_def bindOutcome_def
  by (auto split: prod.splits option.splits outcome.splits if_splits dest!: semiGlobalAlignmentAllRefsOneLevel_values)

text \<open>
  Whatever the input, an invocation that returns leaves the index with the two strand
  entries added and the entry called \<open>readName\<close> removed.
\<close>

lemma semiGlobalAlignmentAllRefs_index:
  assumes "semiGlobalAlignmentAllRefs st env readName readSeq verbosity slope kp ms mms go ge low =
             Some (Returns (buffer, kp', vals))"
  shows "kp' = deletePositions readName
                 (addPositions (readName @ ''-'') (getReverseComplement readSeq)
                    (addPositions (readName @ ''+'') readSeq kp))"
  using assms
  unfolding semiGlobalAlignmentAllRefs_def Let_def bindOutcome_def cleanUpAndReturn_def
  by (auto split: prod.splits option.splits outcome.splits if_splits)

lemma strand_entries_remain:
  "getSequence (deletePositions readName
                 (addPositions (readName @ ''-'') neg
                    (addPositions (readName @ ''+'') pos kp))) (readName @ ''+'') = Some pos \<and>
   getSequence (deletePositions readName
                 (addPositions (readName @ ''-'') neg
                    (addPositions (readName @ ''+'') pos kp))) (readName @ ''-'') = Some neg"
  by (simp add: getSequence_def deletePositions_def addPositions_def delete_conv' update_conv')

text \<open>Every iteration of the inner loop reads the index \<open>i\<close> of the outer loop.\<close>

lemma alignmentLinesLoop_used:
  "alignmentLinesLoop build oneLine i n ls al out0 used0 = Some (Returns (ls', al', out, used))
   \<Longrightarrow> used = used0 @ replicate n i"
proof (induction n arbitrary: ls al out0 used0)
  case 0
  then show ?case by simp
next
  case (Suc n)
  from Suc.prems obtain ls1 al1 out1 where
    "alignmentLinesLoop build oneLine i n ls1 al1 out1 (used0 @ [i]) =
       Some (Returns (ls', al', out, used))"
    by (auto simp: bindOutcome_def split: if_splits prod.splits option.splits outcome.splits)
  from Suc.IH [OF this] show ?case by simp
qed

text \<open>
  Claim C1 says that the second and third runs of the level driver select the level 2 and
  the level 3 constants. The code passes the literal 1 as \<^verbatim>\<open>sensitivityLevel\<close> in all
  three calls. On the example (one reference, maximum candidate score 10, both coverage
  tests asking for more) the three runs all work with the level 1 values
  \<open>(5/2, 5, 100, 20, 4)\<close>, where levels 2 and 3 would give \<open>(5/4, 5/2, 200, 10, 3)\<close> and
  \<open>(5/8, 5/4, 400, 5, 2)\<close>.
\<close>

theorem semiGlobalAlignmentAllRefs_always_level_1:
  "semiGlobalAlignmentAllRefs exampleSettings (exampleCollaborators [] True examplePrimitive)
       ''read7'' ''AACG'' 0 1 exampleIndex 3 (- 6) (- 5) (- 2) (9 / 10) =
     Some (Returns ([], [(''ref1'', ''TTACGTTT''), (''read7+'', ''AACG''), (''read7-'', ''CGTT'')],
                    [(5 / 2, 5, 100, 20, 4), (5 / 2, 5, 100, 20, 4), (5 / 2, 5, 100, 20, 4)])) \<and>
   (let maxScoreAllSets = 10
    in map (\<lambda>level. case levelSettings exampleSettings level of
                       (low, high, rest) \<Rightarrow> (low * maxScoreAllSets, high * maxScoreAllSets, rest))
         [1, 2, 3] =
       [(5 / 2, 5, 100, 20, 4), (5 / 4, 5 / 2, 200, 10, 3), (5 / 8, 5 / 4, 400, 5, 2)])"
  by (simp add: run_defs)

text \<open>
  Claim C2 says that the j-th iteration of the inner loop works on the j-th line. The code
  reads \<^verbatim>\<open>alignmentLines[i]\<close>, with the index of the outer loop. For the first candidate
  (\<open>i = 0\<close>) with two lines, both iterations read line 0: the first line is aligned twice
  and the second line never. For a second candidate (\<open>i = 1\<close>) with one line, the read is
  out of range.
\<close>

theorem semiGlobalAlignmentAllRefsOneLevel_outer_index:
  "semiGlobalAlignmentAllRefsOneLevel exampleSettings
       (exampleCollaborators [exampleLine 0 4, exampleLine 2 6] True linePrimitive)
       [exampleForward] exampleIndexWithRead 0 [] 3 (- 6) (- 5) (- 2) 1 10 =
     Some (Returns ([(exampleAlignment 90 ''first'')\<lparr>m_milliseconds := 7\<rparr>,
                     (exampleAlignment 90 ''first'')\<lparr>m_milliseconds := 7\<rparr>],
                    [], [(0, [0, 0])], (5 / 2, 5, 100, 20, 4))) \<and>
   semiGlobalAlignmentAllRefsOneLevel exampleSettings
       (exampleCollaborators [exampleLine 0 4] True linePrimitive)
       [exampleForward, exampleReverse] exampleIndexWithRead 0 [] 3 (- 6) (- 5) (- 2) 1 10 =
     Some (Fault IndexOutOfRange)"
  by (simp add: run_defs)

text \<open>
  Claim C3 says that after an invocation the index holds no entry for the two strand
  names. The code adds the entries \<open>readName+\<close> and \<open>readName-\<close> and then removes the
  entry \<open>readName\<close>. With removal by name, as the spec describes the index, the two strand
  entries are still there after the call: for the read \<open>r1\<close> the index holds \<open>chr\<close>,
  \<open>r1+\<close> and \<open>r1-\<close>.
\<close>

theorem semiGlobalAlignmentAllRefs_strands_left:
  "(case semiGlobalAlignmentAllRefs exampleSettings (exampleCollaborators [] True failingPrimitive)
           ''r1'' ''ACGTN'' 0 1 [(''chr'', ''GGGTTTAAACCC'')] 3 (- 6) (- 5) (- 2) (9 / 10) of
      Some (Returns (buffer, kmerPositions, values)) \<Rightarrow>
        getAllNames kmerPositions = [''chr'', ''r1+'', ''r1-''] \<and>
        getSequence kmerPositions ''r1+'' = Some ''ACGTN'' \<and>
        getSequence kmerPositions ''r1-'' = Some ''NACGT''
    | _ \<Rightarrow> False)"
  by (simp add: run_defs)

text \<open>
  Claim C8 ends by saying that the entry point always returns a buffer. What it says of
  the one-band routine and of the loop holds of the code (the one-band routine returns
  the null pointer when the primitive throws, and
  \<open>semiGlobalAlignmentOneLine_primitive_failures\<close> above). The entry point, however,
  does not always return: with a primitive that fails at every band size, one reference
  and one line per candidate, the forward candidate yields no alignment, and the reverse
  candidate (\<open>i = 1\<close>) reads \<^verbatim>\<open>alignmentLines[1]\<close> of a one-line list.
\<close>

theorem semiGlobalAlignmentAllRefs_no_buffer:
  "semiGlobalAlignmentAllRefs exampleSettings
       (exampleCollaborators [exampleLine 0 4] True failingPrimitive)
       ''read7'' ''AACG'' 0 1 exampleIndex 3 (- 6) (- 5) (- 2) (9 / 10) =
     Some (Fault IndexOutOfRange)"
  by (simp add: run_defs)

end
